theory Spec2Isabelle
  imports Main
begin

section \<open>Values of the request surface\<close>

text \<open>
  A handler answers through \<^verbatim>\<open>c.JSON(status, gin.H{...})\<close>. A \<^verbatim>\<open>gin.H\<close> is a map from
  keys to JSON values; it is kept as an association list whose order carries no meaning.
  The parameter map \<^verbatim>\<open>map[string]interface{}\<close> holds strings and booleans.
\<close>

datatype json = JNull | JBool bool | JString string | JNumber int | JArray "json list"

type_synonym H = "(string \<times> json) list"

record reply =
  code :: nat
  body :: H

datatype dyn = DString string | DBool bool

type_synonym params = "(string \<times> dyn) list"

text \<open>A Go \<^verbatim>\<open>error\<close>: the kind of the spec's taxonomy and the text of \<^verbatim>\<open>err.Error()\<close>.\<close>

datatype kind = BadRequest | DimensionRequired | DuplicateArtifact | BadVersion
  | StorageError | MetadataError | CacheError

datatype error = Err kind string

fun Error :: "error \<Rightarrow> string" where
  "Error (Err k m) = m"

text \<open>\<^verbatim>\<open>v, _ := params[key].(string)\<close>: the empty string when the key is absent or not a string.\<close>

definition str_param :: "params \<Rightarrow> string \<Rightarrow> string" where
  "str_param p k = (case map_of p k of Some (DString s) \<Rightarrow> s | _ \<Rightarrow> [])"

section \<open>Blob store: \<^verbatim>\<open>utils.UploadToS3\<close>\<close>

text \<open>\<^verbatim>\<open>strings.Index(s, ".")\<close>: position of the first occurrence, or -1.\<close>

primrec index_from :: "char \<Rightarrow> string \<Rightarrow> int \<Rightarrow> int" where
  "index_from c [] i = - 1"
| "index_from c (x # xs) i = (if x = c then i else index_from c xs (i + 1))"

definition strings_Index :: "string \<Rightarrow> char \<Rightarrow> int" where
  "strings_Index s c = index_from c s 0"

text \<open>
  Lines 297-303 of \<^verbatim>\<open>UploadToS3\<close>: \<^verbatim>\<open>extension\<close> starts empty and becomes
  \<^verbatim>\<open>baseFileName[dotIndex:]\<close> when \<^verbatim>\<open>dotIndex > -1\<close>.
\<close>

definition extension :: "string \<Rightarrow> string" where
  "extension baseFileName =
     (let dotIndex = strings_Index baseFileName (CHR ''.'')
      in if dotIndex > - 1 then drop (nat dotIndex) baseFileName else [])"

text \<open>\<^verbatim>\<open>fmt.Sprintf("%s-%s%s", appName, version, extension)\<close>\<close>

definition newFileName :: "string \<Rightarrow> string \<Rightarrow> string \<Rightarrow> string" where
  "newFileName appName version baseFileName = appName @ ''-'' @ version @ extension baseFileName"

text \<open>\<^verbatim>\<open>fmt.Sprintf("%s/%s/%s", env.GetString("S3_ENDPOINT"), appName, newFileName)\<close>\<close>

definition link_of :: "string \<Rightarrow> string \<Rightarrow> string \<Rightarrow> string \<Rightarrow> string" where
  "link_of endpoint appName version baseFileName =
     endpoint @ ''/'' @ appName @ ''/'' @ newFileName appName version baseFileName"

text \<open>\<^verbatim>\<open>s3Key := appName + "/" + newFileName\<close>\<close>

definition s3Key :: "string \<Rightarrow> string \<Rightarrow> string \<Rightarrow> string" where
  "s3Key appName version baseFileName = appName @ ''/'' @ newFileName appName version baseFileName"

text \<open>
  The bucket: the stored objects, and the keys for which the store answers a request with
  an error (the failure of the external service is an input of the model).
\<close>

record s3 =
  objects :: "(string \<times> string) list"
  refused :: "string list"

record FileHeader =
  Filename :: string
  Content :: string

definition PutObject :: "s3 \<Rightarrow> string \<Rightarrow> string \<Rightarrow> error option \<times> s3" where
  "PutObject b key content =
     (if key \<in> set (refused b) then (Some (Err StorageError ''put object failed''), b)
      else (None, b\<lparr>objects := (key, content) # filter (\<lambda>kv. fst kv \<noteq> key) (objects b)\<rparr>))"

definition DeleteObject :: "s3 \<Rightarrow> string \<Rightarrow> error option \<times> s3" where
  "DeleteObject b key =
     (if key \<in> set (refused b) then (Some (Err StorageError ''delete object failed''), b)
      else (None, b\<lparr>objects := filter (\<lambda>kv. fst kv \<noteq> key) (objects b)\<rparr>))"

text \<open>
  \<^verbatim>\<open>UploadToS3\<close>. The key, the link and the extension are those of lines 297-315. The call
  site in \<^verbatim>\<open>UploadApp\<close> receives \<^verbatim>\<open>(link, ext, err)\<close>: the model hands back the extension
  computed in the body next to the link, and the error of \<^verbatim>\<open>PutObject\<close> as a value.
\<close>

definition UploadToS3 ::
  "string \<Rightarrow> string \<Rightarrow> string \<Rightarrow> FileHeader \<Rightarrow> s3 \<Rightarrow> (string \<times> string \<times> error option) \<times> s3" where
  "UploadToS3 endpoint appName version file b =
     (let baseFileName = Filename file;
          ext = extension baseFileName;
          link = link_of endpoint appName version baseFileName;
          key = s3Key appName version baseFileName;
          (err, b') = PutObject b key (Content file)
      in ((link, ext, err), b'))"

section \<open>Metadata store\<close>

text \<open>
  The types \<^verbatim>\<open>model.SpecificApp\<close>, \<^verbatim>\<open>model.Artifact\<close> and \<^verbatim>\<open>model.Changelog\<close> are used by
  the handlers (\<^verbatim>\<open>appData.ID\<close>, \<^verbatim>\<open>artifact.Link\<close>, \<^verbatim>\<open>artifact.Package\<close>,
  \<^verbatim>\<open>changelog.Changes\<close>); their remaining fields are those of the Release and Artifact
  entities of the data model. An identifier is a number; \<^verbatim>\<open>ID.Hex()\<close> renders it.
\<close>

record Artifact =
  Link :: string
  Platform :: string
  Arch :: string
  Package :: string

record Changelog =
  LogVersion :: string
  Changes :: string
  Date :: string

record SpecificApp =
  ID :: nat
  AppName :: string
  Version :: string
  Channel :: string
  Published :: bool
  Critical :: bool
  Artifacts :: "Artifact list"
  Changelogs :: "Changelog list"

text \<open>What \<^verbatim>\<open>repository.Upload\<close> hands back as \<^verbatim>\<open>interface{}\<close>.\<close>

datatype result = IsSpecificApp SpecificApp | OtherResult

record mongo =
  apps :: "string list"
  channels :: "string list"
  platforms :: "string list"
  archs :: "string list"
  releases :: "SpecificApp list"
  serial :: nat
  today :: string

definition hex_digit :: "nat \<Rightarrow> char" where
  "hex_digit d = ''0123456789abcdef'' ! (d mod 16)"

fun hex_digits :: "nat \<Rightarrow> nat \<Rightarrow> string" where
  "hex_digits 0 n = []"
| "hex_digits (Suc k) n = hex_digits k (n div 16) @ [hex_digit n]"

definition Hex :: "nat \<Rightarrow> string" where
  "Hex n = hex_digits 24 n"

section \<open>Versions\<close>

text \<open>
  Modelled from the spec: the version parser and comparator of the repository are not
  among the sources. A version splits on \<^verbatim>\<open>.\<close> into exactly four tokens, each a
  non-negative decimal integer; the order is lexicographic on the four components.
\<close>

type_synonym version = "nat \<times> nat \<times> nat \<times> nat"

fun split_on :: "char \<Rightarrow> string \<Rightarrow> string list" where
  "split_on c [] = [] # []"
| "split_on c (x # xs) =
     (if x = c then [] # split_on c xs
      else (case split_on c xs of [] \<Rightarrow> [x] # [] | t # ts \<Rightarrow> (x # t) # ts))"

definition is_digit :: "char \<Rightarrow> bool" where
  "is_digit ch = (48 \<le> (of_char ch :: nat) \<and> (of_char ch :: nat) \<le> 57)"

definition is_letter :: "char \<Rightarrow> bool" where
  "is_letter ch = ((65 \<le> (of_char ch :: nat) \<and> (of_char ch :: nat) \<le> 90)
     \<or> (97 \<le> (of_char ch :: nat) \<and> (of_char ch :: nat) \<le> 122))"

fun decimal :: "string \<Rightarrow> nat \<Rightarrow> nat option" where
  "decimal [] acc = Some acc"
| "decimal (ch # cs) acc =
     (if is_digit ch then decimal cs (10 * acc + (of_char ch - 48)) else None)"

definition parse_component :: "string \<Rightarrow> nat option" where
  "parse_component tok = (case tok of [] \<Rightarrow> None | _ # _ \<Rightarrow> decimal tok 0)"

definition parse_version :: "string \<Rightarrow> version option" where
  "parse_version s =
     (case map parse_component (split_on (CHR ''.'') s) of
        [Some a, Some b, Some c, Some d] \<Rightarrow> Some (a, b, c, d)
      | _ \<Rightarrow> None)"

fun version_less :: "version \<Rightarrow> version \<Rightarrow> bool" where
  "version_less (a, b, c, d) (a', b', c', d') =
     (a < a' \<or> (a = a' \<and> (b < b' \<or> (b = b' \<and> (c < c' \<or> (c = c' \<and> d < d'))))))"

section \<open>Parameter validation\<close>

text \<open>\<^verbatim>\<open>IsValidInputAppName\<close>: the regular expression \<^verbatim>\<open>^[a-zA-Z0-9]+$\<close>.\<close>

definition IsValidInputAppName :: "string \<Rightarrow> bool" where
  "IsValidInputAppName input =
     (case input of [] \<Rightarrow> False | _ # _ \<Rightarrow> list_all (\<lambda>ch. is_letter ch \<or> is_digit ch) input)"

text \<open>\<^verbatim>\<open>IsValidInputVersion\<close>: the regular expression \<^verbatim>\<open>^[0-9.-]+$\<close>.\<close>

definition IsValidInputVersion :: "string \<Rightarrow> bool" where
  "IsValidInputVersion input =
     (case input of [] \<Rightarrow> False
      | _ # _ \<Rightarrow> list_all (\<lambda>ch. is_digit ch \<or> ch = CHR ''.'' \<or> ch = CHR ''-'') input)"

text \<open>
  The request as the handlers read it: the method, the URL query (\<^verbatim>\<open>c.Query\<close>), the JSON
  object of the multipart field \<^verbatim>\<open>data\<close>, and the parts of the multipart field \<^verbatim>\<open>file\<close>
  (\<open>None\<close> when \<^verbatim>\<open>c.MultipartForm()\<close> fails).
\<close>

datatype http_verb = GET | POST

record Context =
  Method :: http_verb
  QueryString :: "(string \<times> string) list"
  Data :: params
  Files :: "FileHeader list option"

definition Query :: "Context \<Rightarrow> string \<Rightarrow> string" where
  "Query c k = (case map_of (QueryString c) k of Some v \<Rightarrow> v | None \<Rightarrow> [])"

definition request_params :: "Context \<Rightarrow> params" where
  "request_params c =
     (case Method c of
        GET \<Rightarrow> map (\<lambda>kv. (fst kv, DString (snd kv))) (QueryString c)
      | POST \<Rightarrow> Data c)"

text \<open>
  Modelled from the spec: \<^verbatim>\<open>utils.ValidateParams\<close> is not among the sources. For a
  dimension with at least one record the parameter must be present, and a value that is
  present must name a record. The text of the three "is required" errors is the one the
  repository's tests expect; the spec fixes no text for the other failures.
\<close>

definition dimension_check :: "string \<Rightarrow> string list \<Rightarrow> params \<Rightarrow> error option" where
  "dimension_check name records p =
     (case str_param p name of
        [] \<Rightarrow> (case records of
                 [] \<Rightarrow> None
               | _ # _ \<Rightarrow> Some (Err DimensionRequired
                   (''you have a created '' @ name @ ''s, setting '' @ name @ '' is required'')))
      | x # xs \<Rightarrow> (if x # xs \<in> set records then None
                   else Some (Err BadRequest (name @ '' does not exist''))))"

definition ValidateParams :: "Context \<Rightarrow> mongo \<Rightarrow> error + params" where
  "ValidateParams c db =
     (let p = request_params c;
          app = str_param p ''app_name'';
          ver = str_param p ''version''
      in if IsValidInputAppName app then
           (if Method c = GET \<or> app \<in> set (apps db) then
              (if IsValidInputVersion ver then
                 (case parse_version ver of
                    None \<Rightarrow> Inl (Err BadVersion ''invalid version parameter'')
                  | Some v \<Rightarrow>
                    (case dimension_check ''channel'' (channels db) p of
                       Some e \<Rightarrow> Inl e
                     | None \<Rightarrow>
                       (case dimension_check ''platform'' (platforms db) p of
                          Some e \<Rightarrow> Inl e
                        | None \<Rightarrow>
                          (case dimension_check ''arch'' (archs db) p of
                             Some e \<Rightarrow> Inl e
                           | None \<Rightarrow> Inr p))))
               else Inl (Err BadRequest ''invalid version parameter''))
            else Inl (Err BadRequest ''app does not exist''))
         else Inl (Err BadRequest ''invalid app_name parameter''))"

text \<open>
  Modelled from the spec: \<^verbatim>\<open>utils.GetBoolParam\<close> is not among the sources; a parameter
  counts as set when it holds the boolean true.
\<close>

definition GetBoolParam :: "dyn option \<Rightarrow> bool" where
  "GetBoolParam v = (case v of Some (DBool b) \<Rightarrow> b | _ \<Rightarrow> False)"

section \<open>Artifact store\<close>

definition same_release :: "params \<Rightarrow> SpecificApp \<Rightarrow> bool" where
  "same_release p r =
     (AppName r = str_param p ''app_name'' \<and> Version r = str_param p ''version''
      \<and> Channel r = str_param p ''channel'')"

definition same_artifact :: "params \<Rightarrow> string \<Rightarrow> Artifact \<Rightarrow> bool" where
  "same_artifact p ext a =
     (Platform a = str_param p ''platform'' \<and> Arch a = str_param p ''arch'' \<and> Package a = ext)"

text \<open>The tuple (app_name, version, channel, platform, arch, package) is in the store.\<close>

definition artifact_present :: "mongo \<Rightarrow> params \<Rightarrow> string \<Rightarrow> bool" where
  "artifact_present db p ext =
     (case find (same_release p) (releases db) of
        None \<Rightarrow> False
      | Some r \<Rightarrow> list_ex (same_artifact p ext) (Artifacts r))"

definition add_changelog :: "params \<Rightarrow> string \<Rightarrow> Changelog list \<Rightarrow> Changelog list" where
  "add_changelog p day cl =
     (if list_ex (\<lambda>e. LogVersion e = str_param p ''version'') cl then cl
      else cl @ [\<lparr>LogVersion = str_param p ''version'', Changes = str_param p ''changelog'',
                  Date = day\<rparr>])"

text \<open>
  Modelled from the spec: \<^verbatim>\<open>repository.Upload\<close> is not among the sources. It looks the
  Release up by (app_name, version, channel); without one it creates a Release with one
  Artifact; with one it fails on an Artifact of the same (platform, arch, package) and
  appends otherwise. The text of the error is the one the repository's tests expect.
\<close>

definition Upload :: "params \<Rightarrow> string \<Rightarrow> string \<Rightarrow> mongo \<Rightarrow> (error + result) \<times> mongo" where
  "Upload p link ext db =
     (let art = \<lparr>Link = link, Platform = str_param p ''platform'', Arch = str_param p ''arch'',
                 Package = ext\<rparr>
      in case find (same_release p) (releases db) of
           None \<Rightarrow>
             (let r = \<lparr>ID = serial db, AppName = str_param p ''app_name'',
                       Version = str_param p ''version'', Channel = str_param p ''channel'',
                       Published = GetBoolParam (map_of p ''publish''),
                       Critical = GetBoolParam (map_of p ''critical''),
                       Artifacts = [art], Changelogs = add_changelog p (today db) []\<rparr>
              in (Inr (IsSpecificApp r),
                  db\<lparr>releases := releases db @ [r], serial := Suc (serial db)\<rparr>))
         | Some r \<Rightarrow>
             (if list_ex (same_artifact p ext) (Artifacts r) then
                (Inl (Err DuplicateArtifact
                   ''app with this name, version, and extension already exists''), db)
              else
                (let r' = r\<lparr>Artifacts := Artifacts r @ [art],
                            Changelogs := add_changelog p (today db) (Changelogs r)\<rparr>
                 in (Inr (IsSpecificApp r'),
                     db\<lparr>releases := map (\<lambda>x. if ID x = ID r then r' else x) (releases db)\<rparr>))))"

section \<open>Resolver\<close>

record CheckResult =
  Found :: bool
  FoundArtifacts :: "Artifact list"

definition matches_target :: "string \<Rightarrow> string \<Rightarrow> Artifact \<Rightarrow> bool" where
  "matches_target platform arch a = (Platform a = platform \<and> Arch a = arch)"

definition is_candidate :: "string \<Rightarrow> string \<Rightarrow> string \<Rightarrow> string \<Rightarrow> SpecificApp \<Rightarrow> bool" where
  "is_candidate appName channel platform arch r =
     (AppName r = appName \<and> Channel r = channel \<and> Published r
      \<and> list_ex (matches_target platform arch) (Artifacts r))"

definition with_version :: "SpecificApp \<Rightarrow> (version \<times> SpecificApp) option" where
  "with_version r = (case parse_version (Version r) of None \<Rightarrow> None | Some v \<Rightarrow> Some (v, r))"

fun latest_of :: "(version \<times> SpecificApp) list \<Rightarrow> (version \<times> SpecificApp) option" where
  "latest_of [] = None"
| "latest_of (x # xs) =
     (case latest_of xs of
        None \<Rightarrow> Some x
      | Some y \<Rightarrow> (if version_less (fst x) (fst y) then Some y else Some x))"

text \<open>
  Modelled from the spec: the repository's \<^verbatim>\<open>getLatestPublished\<close> is not among the sources.
  The candidates are the published Releases of the app and channel that hold at least one
  Artifact of the platform and arch; the winner is the one of the largest version.
\<close>

definition getLatestPublished ::
  "mongo \<Rightarrow> string \<Rightarrow> string \<Rightarrow> string \<Rightarrow> string \<Rightarrow> (version \<times> SpecificApp) option" where
  "getLatestPublished db appName channel platform arch =
     latest_of (List.map_filter with_version
       (filter (is_candidate appName channel platform arch) (releases db)))"

text \<open>
  Modelled from the spec: \<^verbatim>\<open>repository.CheckLatestVersion\<close> is not among the sources. The
  rows of the "Check" table: no candidate; client newer than the latest (an error); client
  equal to the latest (nothing found, the artifacts returned); client older (found).
\<close>

definition CheckLatestVersion ::
  "string \<Rightarrow> string \<Rightarrow> string \<Rightarrow> string \<Rightarrow> string \<Rightarrow> mongo \<Rightarrow> error + CheckResult" where
  "CheckLatestVersion appName ver channel platform arch db =
     (case parse_version ver of
        None \<Rightarrow> Inl (Err BadVersion (''invalid version '' @ ver))
      | Some v \<Rightarrow>
        (case getLatestPublished db appName channel platform arch of
           None \<Rightarrow> Inr \<lparr>Found = False, FoundArtifacts = []\<rparr>
         | Some lr \<Rightarrow>
           (if version_less (fst lr) v then
              Inl (Err BadVersion (''requested version '' @ ver
                     @ '' is newer than the latest version available''))
            else Inr \<lparr>Found = version_less v (fst lr),
                       FoundArtifacts = filter (matches_target platform arch)
                                          (Artifacts (snd lr))\<rparr>)))"

text \<open>\<^verbatim>\<open>strings.TrimPrefix\<close> and the assignment \<^verbatim>\<open>response[key] = value\<close> on a \<^verbatim>\<open>gin.H\<close>.\<close>

definition TrimPrefix :: "string \<Rightarrow> string \<Rightarrow> string" where
  "TrimPrefix s pre = (if take (length pre) s = pre then drop (length pre) s else s)"

fun H_set :: "string \<Rightarrow> json \<Rightarrow> H \<Rightarrow> H" where
  "H_set k v [] = [(k, v)]"
| "H_set k v (e # h) = (if fst e = k then (k, v) # h else e # H_set k v h)"

text \<open>Lines 224-229 of \<^verbatim>\<open>FindLatestVersion\<close>: one entry per artifact with a package and a link.\<close>

fun add_update_urls :: "Artifact list \<Rightarrow> H \<Rightarrow> H" where
  "add_update_urls [] response = response"
| "add_update_urls (artifact # rest) response =
     add_update_urls rest
       (if Package artifact \<noteq> [] \<and> Link artifact \<noteq> [] then
          H_set (''update_url_'' @ TrimPrefix (Package artifact) ''.'')
                (JString (Link artifact)) response
        else response)"

text \<open>
  \<^verbatim>\<open>FindLatestVersion\<close>: the reply and the errors written to the log. In the branch for
  \<^verbatim>\<open>!checkResult.Found\<close> the variable \<^verbatim>\<open>err\<close> is nil, so both sub-branches send the same
  body.
\<close>

definition FindLatestVersion :: "Context \<Rightarrow> mongo \<Rightarrow> reply \<times> string list" where
  "FindLatestVersion c db =
     (case ValidateParams c db of
        Inl err \<Rightarrow> (\<lparr>code = 400, body = [(''error'', JString (Error err))]\<rparr>, [])
      | Inr _ \<Rightarrow>
        (case CheckLatestVersion (Query c ''app_name'') (Query c ''version'')
                (Query c ''channel'') (Query c ''platform'') (Query c ''arch'') db of
           Inl err \<Rightarrow>
             (\<lparr>code = 500, body = [(''error'', JString (Error err))]\<rparr>, [Error err])
         | Inr checkResult \<Rightarrow>
             (if Found checkResult then
                (\<lparr>code = 200,
                  body = add_update_urls (FoundArtifacts checkResult)
                           [(''update_available'', JBool True)]\<rparr>, [])
              else
                (case FoundArtifacts checkResult of
                   [] \<Rightarrow> (\<lparr>code = 200, body = [(''update_available'', JBool False),
                                               (''error'', JString ''Not found'')]\<rparr>, [])
                 | _ # _ \<Rightarrow> (\<lparr>code = 200, body = [(''update_available'', JBool False),
                                                  (''error'', JString ''Not found'')]\<rparr>, [])))))"

section \<open>Cache\<close>

text \<open>
  The key-value cache: its entries, whether \<^verbatim>\<open>KEYS\<close> answers with an error, and the keys
  for which \<^verbatim>\<open>DEL\<close> answers with an error. \<^verbatim>\<open>KEYS\<close> matches glob patterns; \<open>glob_match\<close>
  covers the wildcards \<^verbatim>\<open>*\<close> and \<^verbatim>\<open>?\<close> and literal characters.
\<close>

record redis =
  entries :: "(string \<times> string) list"
  keys_failure :: "error option"
  del_failing :: "string list"

fun glob_match :: "string \<Rightarrow> string \<Rightarrow> bool" where
  "glob_match [] s = (s = [])"
| "glob_match (p # ps) [] = (p = CHR ''*'' \<and> glob_match ps [])"
| "glob_match (p # ps) (x # xs) =
     (if p = CHR ''*'' then (glob_match ps (x # xs) \<or> glob_match (p # ps) xs)
      else ((p = CHR ''?'' \<or> p = x) \<and> glob_match ps xs))"

definition Keys :: "redis \<Rightarrow> string \<Rightarrow> error + string list" where
  "Keys r pattern =
     (case keys_failure r of
        Some e \<Rightarrow> Inl e
      | None \<Rightarrow> Inr (filter (glob_match pattern) (map fst (entries r))))"

definition Del :: "redis \<Rightarrow> string \<Rightarrow> error option \<times> redis" where
  "Del r key =
     (if key \<in> set (del_failing r) then (Some (Err CacheError ''del failed''), r)
      else (None, r\<lparr>entries := filter (\<lambda>kv. fst kv \<noteq> key) (entries r)\<rparr>))"

text \<open>Lines 39-44 of \<^verbatim>\<open>InvalidateCache\<close>: a failed deletion is logged and the loop goes on.\<close>

fun invalidate_keys :: "string list \<Rightarrow> redis \<Rightarrow> redis \<times> string list" where
  "invalidate_keys [] r = (r, [])"
| "invalidate_keys (key # ks) r =
     (case Del r key of
        (Some err, r') \<Rightarrow>
          (case invalidate_keys ks r' of
             (r'', lg) \<Rightarrow>
               (r'', (''Failed to invalidate key: '' @ key @ '', error: '' @ Error err) # lg))
      | (None, r') \<Rightarrow> invalidate_keys ks r')"

definition cache_pattern :: "params \<Rightarrow> string" where
  "cache_pattern p =
     ''app_name='' @ str_param p ''app_name'' @ ''&version=*&channel=''
       @ str_param p ''channel'' @ ''&platform=*&arch=*''"

definition InvalidateCache :: "params \<Rightarrow> redis \<Rightarrow> error option \<times> redis \<times> string list" where
  "InvalidateCache p r =
     (case Keys r (cache_pattern p) of
        Inl err \<Rightarrow>
          (Some (Err CacheError (''failed to fetch keys for invalidation: '' @ Error err)), r, [])
      | Inr ks \<Rightarrow>
          (if length ks = 0 then (None, r, [])
           else (case invalidate_keys ks r of (r', lg) \<Rightarrow> (None, r', lg))))"

section \<open>Upload coordinator: \<^verbatim>\<open>UploadApp\<close>\<close>

text \<open>
  The stores the handler works on and the error log. \<open>rdb\<close> is the pointer to the cache
  client, \<open>None\<close> when it is nil.
\<close>

record world =
  mongo :: mongo
  bucket :: s3
  rdb :: "redis option"
  logged :: "string list"

text \<open>Lines 70-79: the blobs are uploaded first, and the first failure ends the request.\<close>

fun upload_all ::
  "string \<Rightarrow> params \<Rightarrow> FileHeader list \<Rightarrow> s3 \<Rightarrow> (error + (string \<times> string) list) \<times> s3" where
  "upload_all endpoint p [] b = (Inr [], b)"
| "upload_all endpoint p (file # files) b =
     (case UploadToS3 endpoint (str_param p ''app_name'') (str_param p ''version'') file b of
        ((link, ext, Some err), b') \<Rightarrow> (Inl err, b')
      | ((link, ext, None), b') \<Rightarrow>
          (case upload_all endpoint p files b' of
             (Inl err, b'') \<Rightarrow> (Inl err, b'')
           | (Inr rest, b'') \<Rightarrow> (Inr ((link, ext) # rest), b'')))"

text \<open>Lines 81-89: one metadata write per link, and the first failure ends the request.\<close>

fun store_all ::
  "params \<Rightarrow> (string \<times> string) list \<Rightarrow> mongo \<Rightarrow> (error + result list) \<times> mongo" where
  "store_all p [] db = (Inr [], db)"
| "store_all p (le # rest) db =
     (case Upload p (fst le) (snd le) db of
        (Inl err, db') \<Rightarrow> (Inl err, db')
      | (Inr res, db') \<Rightarrow>
          (case store_all p rest db' of
             (Inl err, db'') \<Rightarrow> (Inl err, db'')
           | (Inr ress, db'') \<Rightarrow> (Inr (res # ress), db'')))"

text \<open>Lines 91-102: the cache step; its error is logged and nothing else.\<close>

definition invalidate_step :: "bool \<Rightarrow> params \<Rightarrow> world \<Rightarrow> world" where
  "invalidate_step performanceMode p w =
     (case rdb w of
        None \<Rightarrow> w
      | Some r \<Rightarrow>
          (if performanceMode then
             (if GetBoolParam (map_of p ''publish'') then
                (case InvalidateCache p r of
                   (Some err, r', lg) \<Rightarrow>
                     w\<lparr>rdb := Some r',
                       logged := logged w @ lg @ [''Error invalidating cache:'' @ Error err]\<rparr>
                 | (None, r', lg) \<Rightarrow> w\<lparr>rdb := Some r', logged := logged w @ lg\<rparr>)
              else w)
           else w))"

text \<open>
  \<^verbatim>\<open>UploadApp\<close>. The notification sent from the goroutine after the reply is outside the
  model.
\<close>

definition UploadApp :: "string \<Rightarrow> bool \<Rightarrow> Context \<Rightarrow> world \<Rightarrow> reply \<times> world" where
  "UploadApp endpoint performanceMode c w =
     (case ValidateParams c (mongo w) of
        Inl err \<Rightarrow> (\<lparr>code = 400, body = [(''error'', JString (Error err))]\<rparr>, w)
      | Inr ctxQueryMap \<Rightarrow>
        (case Files c of
           None \<Rightarrow>
             (\<lparr>code = 400, body = [(''error'', JString ''multipart form data is required'')]\<rparr>, w)
         | Some files \<Rightarrow>
           (case upload_all endpoint ctxQueryMap files (bucket w) of
              (Inl err, b) \<Rightarrow>
                (\<lparr>code = 500, body = [(''error'', JString ''failed to upload file to S3'')]\<rparr>,
                 w\<lparr>bucket := b, logged := logged w @ [Error err]\<rparr>)
            | (Inr uploaded, b) \<Rightarrow>
              (case store_all ctxQueryMap uploaded (mongo w) of
                 (Inl err, db) \<Rightarrow>
                   (\<lparr>code = 500, body = [(''error'', JString (Error err))]\<rparr>,
                    w\<lparr>mongo := db, bucket := b, logged := logged w @ [Error err]\<rparr>)
               | (Inr results, db) \<Rightarrow>
                   (let w' = invalidate_step performanceMode ctxQueryMap
                               (w\<lparr>mongo := db, bucket := b\<rparr>)
                    in case results of
                         [] \<Rightarrow>
                           (\<lparr>code = 500,
                             body = [(''error'',
                               JString ''no results found. Please check your files.'')]\<rparr>, w')
                       | IsSpecificApp appData # _ \<Rightarrow>
                           (\<lparr>code = 200,
                             body = [(''uploadResult'', JString (Hex (ID appData)))]\<rparr>, w')
                       | OtherResult # _ \<Rightarrow>
                           (\<lparr>code = 500,
                             body = [(''error'', JString ''Invalid result type'')]\<rparr>, w'))))))"

section \<open>Catalog and delete handlers\<close>

text \<open>
  The handlers receive the repository as an interface; its methods are arguments of the
  model, so the handlers are described for every repository. A method returns all its
  results, the error among them. A Go slice is \<open>None\<close> when nil.
\<close>

definition slice_json :: "json list option \<Rightarrow> json" where
  "slice_json xs = (case xs of None \<Rightarrow> JNull | Some ys \<Rightarrow> JArray ys)"

definition GetAppByName ::
  "(string \<Rightarrow> json list option \<times> error option) \<Rightarrow> Context \<Rightarrow> reply \<times> string list" where
  "GetAppByName repository_GetAppByName c =
     (let appName = Query c ''app_name''
      in case repository_GetAppByName appName of
           (result, Some err) \<Rightarrow> (\<lparr>code = 200, body = [(''apps'', slice_json None)]\<rparr>, [Error err])
         | (result, None) \<Rightarrow> (\<lparr>code = 200, body = [(''apps'', slice_json result)]\<rparr>, []))"

text \<open>
  \<^verbatim>\<open>DeleteFromS3\<close> writes a reply of its own when the deletion fails; a handler's result is
  the list of the replies written through \<^verbatim>\<open>c.JSON\<close>, in order.
\<close>

definition DeleteFromS3 :: "string \<Rightarrow> s3 \<Rightarrow> reply list \<times> s3 \<times> string list" where
  "DeleteFromS3 objectKey b =
     (case DeleteObject b objectKey of
        (Some err, b') \<Rightarrow>
          ([\<lparr>code = 500, body = [(''error'', JString ''failed to delete file from S3'')]\<rparr>],
           b', [Error err])
      | (None, b') \<Rightarrow> ([], b', []))"

fun delete_links :: "string \<Rightarrow> string list \<Rightarrow> s3 \<Rightarrow> reply list \<times> s3 \<times> string list" where
  "delete_links endpoint [] b = ([], b, [])"
| "delete_links endpoint (link # links) b =
     (case DeleteFromS3 (TrimPrefix link endpoint) b of
        (rs, b', lg) \<Rightarrow>
          (case delete_links endpoint links b' of
             (rs', b'', lg') \<Rightarrow> (rs @ rs', b'', lg @ lg')))"

definition DeleteApp ::
  "string \<Rightarrow> (string \<Rightarrow> error + 'oid) \<Rightarrow> ('oid \<Rightarrow> string list \<times> json \<times> error option)
     \<Rightarrow> Context \<Rightarrow> s3 \<Rightarrow> reply list \<times> s3 \<times> string list" where
  "DeleteApp endpoint ObjectIDFromHex repository_DeleteApp c b =
     (case ObjectIDFromHex (Query c ''id'') of
        Inl err \<Rightarrow> ([\<lparr>code = 400, body = [(''error'', JString (Error err))]\<rparr>], b, [])
      | Inr objID \<Rightarrow>
          (case repository_DeleteApp objID of
             (links, result, err) \<Rightarrow>
               (case delete_links endpoint links b of
                  (rs, b', lg) \<Rightarrow>
                    (rs @ [\<lparr>code = 200, body = [(''deleteAppResult.DeletedCount'', result)]\<rparr>],
                     b',
                     (case err of None \<Rightarrow> [] | Some e \<Rightarrow> [Error e]) @ lg))))"

text \<open>
  \<^verbatim>\<open>deleteEntity\<close>, the sibling of \<^verbatim>\<open>DeleteApp\<close> in the same file, for the three item types
  its callers pass. \<open>Title\<close> stands for \<^verbatim>\<open>cases.Title\<close> on these lower-case words.
\<close>

definition Title :: "string \<Rightarrow> string" where
  "Title s =
     (case s of [] \<Rightarrow> []
      | ch # cs \<Rightarrow> (if 97 \<le> (of_char ch :: nat) \<and> (of_char ch :: nat) \<le> 122
                    then char_of ((of_char ch :: nat) - 32) else ch) # cs)"

definition deleteEntity ::
  "(string \<Rightarrow> error + 'oid) \<Rightarrow> (string \<Rightarrow> 'oid \<Rightarrow> json \<times> error option)
     \<Rightarrow> Context \<Rightarrow> string \<Rightarrow> reply \<times> string list" where
  "deleteEntity ObjectIDFromHex repository_Delete c itemType =
     (case ObjectIDFromHex (Query c ''id'') of
        Inl err \<Rightarrow> (\<lparr>code = 400, body = [(''error'', JString (Error err))]\<rparr>, [])
      | Inr objID \<Rightarrow>
          (if itemType = ''channel'' \<or> itemType = ''platform'' \<or> itemType = ''arch'' then
             (case repository_Delete itemType objID of
                (result, Some err) \<Rightarrow>
                  (\<lparr>code = 500, body = [(''error'', JString (''failed to delete '' @ itemType))]\<rparr>,
                   [Error err])
              | (result, None) \<Rightarrow>
                  (\<lparr>code = 200,
                    body = [(''delete'' @ Title itemType @ ''Result.DeletedCount'', result)]\<rparr>, []))
           else (\<lparr>code = 400, body = [(''error'', JString ''Invalid item type'')]\<rparr>, [])))"

section \<open>Scenarios\<close>

text \<open>
  The state of the end-to-end scenario S1: the app \<^verbatim>\<open>testapp\<close>, two channels, one
  platform, one arch, and three nightly versions of which the last is not published.
\<close>

definition S1_release :: "nat \<Rightarrow> string \<Rightarrow> bool \<Rightarrow> SpecificApp" where
  "S1_release i ver pub =
     \<lparr>ID = i, AppName = ''testapp'', Version = ver, Channel = ''nightly'', Published = pub,
      Critical = False,
      Artifacts = [\<lparr>Link = link_of ''http://s3'' ''testapp'' ver ''testapp.dmg'',
                    Platform = ''universalPlatform'', Arch = ''universalArch'',
                    Package = ''.dmg''\<rparr>,
                   \<lparr>Link = link_of ''http://s3'' ''testapp'' ver ''testapp.pkg'',
                    Platform = ''universalPlatform'', Arch = ''universalArch'',
                    Package = ''.pkg''\<rparr>],
      Changelogs = [\<lparr>LogVersion = ver, Changes = [], Date = ''2024-01-01''\<rparr>]\<rparr>"

definition S1_mongo :: mongo where
  "S1_mongo =
     \<lparr>apps = [''testapp''], channels = [''nightly'', ''stable''],
      platforms = [''universalPlatform''], archs = [''universalArch''],
      releases = [S1_release 0 ''0.0.1.137'' True, S1_release 1 ''0.0.2.137'' True,
                  S1_release 2 ''0.0.3.137'' False],
      serial = 3, today = ''2024-01-01''\<rparr>"

definition check_request :: "string \<Rightarrow> Context" where
  "check_request ver =
     \<lparr>Method = GET,
      QueryString = [(''app_name'', ''testapp''), (''version'', ver), (''channel'', ''nightly''),
                     (''platform'', ''universalPlatform''), (''arch'', ''universalArch'')],
      Data = [], Files = None\<rparr>"

text \<open>An upload request with the given payload and file names.\<close>

definition upload_request :: "params \<Rightarrow> string list \<Rightarrow> Context" where
  "upload_request payload names =
     \<lparr>Method = POST, QueryString = [], Data = payload,
      Files = Some (map (\<lambda>n. \<lparr>Filename = n, Content = ''bytes''\<rparr>) names)\<rparr>"

definition nightly_payload :: "string \<Rightarrow> bool \<Rightarrow> params" where
  "nightly_payload ver pub =
     [(''app_name'', DString ''testapp''), (''version'', DString ver),
      (''channel'', DString ''nightly''), (''publish'', DBool pub),
      (''critical'', DBool False), (''platform'', DString ''universalPlatform''),
      (''arch'', DString ''universalArch'')]"

definition cached_key :: "string \<Rightarrow> string \<Rightarrow> string" where
  "cached_key ver channel =
     ''app_name=testapp&version='' @ ver @ ''&channel='' @ channel
       @ ''&platform=universalPlatform&arch=universalArch''"

definition S1_redis :: redis where
  "S1_redis =
     \<lparr>entries = [(cached_key ''0.0.1.137'' ''nightly'', ''a''),
                 (cached_key ''0.0.4.137'' ''stable'', ''b''),
                 (cached_key ''0.0.2.137'' ''nightly'', ''c'')],
      keys_failure = None, del_failing = []\<rparr>"

definition S1_world :: world where
  "S1_world =
     \<lparr>mongo = S1_mongo, bucket = \<lparr>objects = [], refused = []\<rparr>, rdb = Some S1_redis,
      logged = []\<rparr>"

text \<open>A store with one registered app and no channel, platform or arch.\<close>

definition fresh_world :: world where
  "fresh_world =
     \<lparr>mongo = \<lparr>apps = [''testapp''], channels = [], platforms = [], archs = [],
               releases = [], serial = 0, today = ''2024-01-01''\<rparr>,
      bucket = \<lparr>objects = [], refused = []\<rparr>, rdb = None, logged = []\<rparr>"

section \<open>Notions used in the statements\<close>

text \<open>
  An entry of a reply is a download URL when its key starts with \<^verbatim>\<open>update_url_\<close>. A request
  omits a parameter when the parameter map holds no non-empty string for it; its core
  parameters are in order when the app name and the version pass the validator; a
  dimension is in order when the validator's check of it passes. \<open>survivors\<close> are the
  cache entries left by an invalidation: those that do not match the pattern or whose
  deletion fails.
\<close>

definition is_update_url :: "string \<times> json \<Rightarrow> bool" where
  "is_update_url kv = (take 11 (fst kv) = ''update_url_'')"

definition duplicate_error :: error where
  "duplicate_error =
     Err DuplicateArtifact ''app with this name, version, and extension already exists''"

definition core_params_ok :: "Context \<Rightarrow> mongo \<Rightarrow> bool" where
  "core_params_ok c db =
     (IsValidInputAppName (str_param (request_params c) ''app_name'')
      \<and> str_param (request_params c) ''app_name'' \<in> set (apps db)
      \<and> IsValidInputVersion (str_param (request_params c) ''version'')
      \<and> parse_version (str_param (request_params c) ''version'') \<noteq> None)"

definition dimension_ok :: "string \<Rightarrow> string list \<Rightarrow> Context \<Rightarrow> bool" where
  "dimension_ok name records c = (dimension_check name records (request_params c) = None)"

definition omitted :: "string \<Rightarrow> Context \<Rightarrow> bool" where
  "omitted name c = (str_param (request_params c) name = [])"

definition required_message :: "string \<Rightarrow> string" where
  "required_message name = ''you have a created '' @ name @ ''s, setting '' @ name @ '' is required''"

definition single_fresh_file :: "Context \<Rightarrow> world \<Rightarrow> FileHeader \<Rightarrow> bool" where
  "single_fresh_file c w f =
     (Files c = Some [f]
      \<and> s3Key (str_param (request_params c) ''app_name'')
               (str_param (request_params c) ''version'') (Filename f)
            \<notin> set (refused (bucket w))
      \<and> \<not> artifact_present (mongo w) (request_params c) (extension (Filename f)))"

definition dimension_world :: "string list \<Rightarrow> string list \<Rightarrow> string list \<Rightarrow> world" where
  "dimension_world cs ps as =
     \<lparr>mongo = \<lparr>apps = [''testapp''], channels = cs, platforms = ps, archs = as,
               releases = [], serial = 0, today = ''2024-01-01''\<rparr>,
      bucket = \<lparr>objects = [], refused = []\<rparr>, rdb = None, logged = []\<rparr>"

definition plain_payload :: "(string \<times> string) list \<Rightarrow> params" where
  "plain_payload kvs =
     [(''app_name'', DString ''testapp''), (''version'', DString ''0.0.1.137'')]
       @ map (\<lambda>kv. (fst kv, DString (snd kv))) kvs"

definition del_log :: "string \<Rightarrow> string" where
  "del_log key = ''Failed to invalidate key: '' @ key @ '', error: del failed''"

definition survivors :: "redis \<Rightarrow> string \<Rightarrow> (string \<times> string) list" where
  "survivors r pattern =
     filter (\<lambda>kv. \<not> (glob_match pattern (fst kv) \<and> fst kv \<notin> set (del_failing r))) (entries r)"

section \<open>Properties of the blob key and of the extension\<close>

lemma index_from_absent: "c \<notin> set s \<Longrightarrow> index_from c s i = - 1"
  by (induction s arbitrary: i) auto

lemma index_from_present:
  "c \<in> set s \<Longrightarrow> index_from c s i = i + int (length (takeWhile (\<lambda>x. x \<noteq> c) s))"
  by (induction s arbitrary: i) auto

lemma extension_dropWhile: "extension fn = dropWhile (\<lambda>x. x \<noteq> CHR ''.'') fn"
proof (cases "CHR ''.'' \<in> set fn")
  case True
  then have "strings_Index fn (CHR ''.'') = int (length (takeWhile (\<lambda>x. x \<noteq> CHR ''.'') fn))"
    by (simp add: strings_Index_def index_from_present)
  then show ?thesis
    by (simp add: extension_def Let_def dropWhile_eq_drop)
next
  case False
  then have "strings_Index fn (CHR ''.'') = - 1"
    by (simp add: strings_Index_def index_from_absent)
  moreover from False have "dropWhile (\<lambda>x. x \<noteq> CHR ''.'') fn = []"
    by auto
  ultimately show ?thesis
    unfolding extension_def Let_def by (simp only: less_irrefl if_False)
qed


lemma s3Key_shape: "s3Key a v fn = a @ ''/'' @ a @ ''-'' @ v @ extension fn"
  by (simp add: s3Key_def newFileName_def)

lemma link_is_endpoint_key: "link_of e a v fn = e @ ''/'' @ s3Key a v fn"
  by (simp add: link_of_def s3Key_def)

lemma UploadToS3_result:
  "fst (UploadToS3 e a v f b) =
     (link_of e a v (Filename f), extension (Filename f),
      fst (PutObject b (s3Key a v (Filename f)) (Content f)))"
  "snd (UploadToS3 e a v f b) = snd (PutObject b (s3Key a v (Filename f)) (Content f))"
  by (simp_all add: UploadToS3_def Let_def split: prod.splits)

text \<open>
  C9. The extension of an uploaded file is the part of the original file name that starts
  at its first dot: it is empty exactly when the name has no dot, it is the whole suffix
  \<^verbatim>\<open>.tar.gz\<close> for \<^verbatim>\<open>name.tar.gz\<close>, and it is the extension \<^verbatim>\<open>UploadToS3\<close> hands back and
  puts at the end of the link and of the key.
\<close>

theorem extension_is_suffix_from_first_dot:
  "extension fn = dropWhile (\<lambda>x. x \<noteq> CHR ''.'') fn
   \<and> (extension fn = []) = (CHR ''.'' \<notin> set fn)
   \<and> fn = takeWhile (\<lambda>x. x \<noteq> CHR ''.'') fn @ extension fn
   \<and> fst (snd (fst (UploadToS3 e a v f b))) = extension (Filename f)
   \<and> fst (fst (UploadToS3 e a v f b))
       = e @ ''/'' @ a @ ''/'' @ a @ ''-'' @ v @ extension (Filename f)
   \<and> s3Key a v fn = a @ ''/'' @ a @ ''-'' @ v @ extension fn
   \<and> extension ''name.tar.gz'' = ''.tar.gz''
   \<and> extension ''LICENSE'' = []
   \<and> s3Key ''testapp'' ''0.0.1.137'' ''LICENSE'' = ''testapp/testapp-0.0.1.137''"
proof -
  have e: "extension fn = dropWhile (\<lambda>x. x \<noteq> CHR ''.'') fn" for fn
    by (rule extension_dropWhile)
  have n: "(extension fn = []) = (CHR ''.'' \<notin> set fn)"
    unfolding e by (auto simp: dropWhile_eq_Nil_conv)
  have t: "fn = takeWhile (\<lambda>x. x \<noteq> CHR ''.'') fn @ extension fn"
    unfolding e by simp
  have x1: "extension ''name.tar.gz'' = ''.tar.gz''" unfolding e by simp
  have x2: "extension ''LICENSE'' = []" unfolding e by simp
  have x3: "s3Key ''testapp'' ''0.0.1.137'' ''LICENSE'' = ''testapp/testapp-0.0.1.137''"
    unfolding s3Key_shape x2 by simp
  show ?thesis
    using e n t x1 x2 x3
    by (simp add: UploadToS3_result s3Key_shape link_of_def newFileName_def)
qed



subsection \<open>The blob key (C5)\<close>

lemma PutObject_keys:
  "PutObject b k c = (None, b') \<Longrightarrow> fst ` set (objects b') = insert k (fst ` set (objects b))"
  by (force simp: PutObject_def image_iff split: if_splits)

lemma UploadToS3_ok:
  "UploadToS3 e a v f b = ((link, ext, None), b') \<Longrightarrow>
     link = e @ ''/'' @ s3Key a v (Filename f) \<and> ext = extension (Filename f)
     \<and> fst ` set (objects b') = insert (s3Key a v (Filename f)) (fst ` set (objects b))"
  by (auto simp: UploadToS3_def Let_def link_is_endpoint_key dest: PutObject_keys split: prod.splits)

lemma upload_all_ok:
  "upload_all e p fs b = (Inr uploaded, b') \<Longrightarrow>
     uploaded = map (\<lambda>f. (e @ ''/'' @ s3Key (str_param p ''app_name'') (str_param p ''version'') (Filename f),
                          extension (Filename f))) fs
     \<and> fst ` set (objects b') =
         fst ` set (objects b) \<union> (\<lambda>f. s3Key (str_param p ''app_name'') (str_param p ''version'') (Filename f)) ` set fs"

proof (induction fs arbitrary: b uploaded)
  case Nil
  then show ?case by simp

next
  case (Cons f fs)
  obtain link ext err b1 where u: "UploadToS3 e (str_param p ''app_name'') (str_param p ''version'') f b = ((link, ext, err), b1)"
    by (metis prod_cases3 surj_pair)
  with Cons.prems have en: "err = None" by (auto split: option.splits)
  obtain r b2 where r: "upload_all e p fs b1 = (r, b2)" by (cases "upload_all e p fs b1")
  with Cons.prems u en obtain rest where rr: "r = Inr rest" "uploaded = (link, ext) # rest" "b' = b2"
    by (cases r) auto
  from Cons.IH[of b1 rest] r rr have ih:
    "rest = map (\<lambda>f. (e @ ''/'' @ s3Key (str_param p ''app_name'') (str_param p ''version'') (Filename f),
                          extension (Filename f))) fs"
    "fst ` set (objects b2) =
         fst ` set (objects b1) \<union> (\<lambda>f. s3Key (str_param p ''app_name'') (str_param p ''version'') (Filename f)) ` set fs"
    by auto
  from UploadToS3_ok[OF u[unfolded en]] ih rr show ?case by auto

qed









section \<open>Properties of the upload reply (C7)\<close>

lemma invalidate_step_keeps: "mongo (invalidate_step pm p w) = mongo w \<and> bucket (invalidate_step pm p w) = bucket w"
  by (simp add: invalidate_step_def split: option.splits prod.splits)

text \<open>
  C7. The claim asks for the key \<^verbatim>\<open>uploadResult.Uploaded\<close> in the reply of a successful upload.
  No reply of \<^verbatim>\<open>UploadApp\<close> holds that key: a reply has status 200 exactly when its body is
  \<^verbatim>\<open>{"uploadResult": <id>}\<close>, as in the first upload of the test suite (file \<^verbatim>\<open>LICENSE\<close>,
  payload with app name and version only, no dimension created).
\<close>

theorem upload_reply_key:
  "map_of (body (fst (UploadApp e pm c w))) ''uploadResult.Uploaded'' = None
   \<and> (code (fst (UploadApp e pm c w)) = 200) =
       (\<exists>i. body (fst (UploadApp e pm c w)) = [(''uploadResult'', JString (Hex i))])
   \<and> fst (UploadApp ''http://s3'' False (upload_request
          [(''app_name'', DString ''testapp''), (''version'', DString ''0.0.1.137'')] [''LICENSE''])
          fresh_world)
       = \<lparr>code = 200, body = [(''uploadResult'', JString (Hex 0))]\<rparr>"

proof -
  have 1: "map_of (body (fst (UploadApp e pm c w))) ''uploadResult.Uploaded'' = None"
    by (simp add: UploadApp_def Let_def split: sum.splits option.splits prod.splits list.splits result.splits)
  have 2: "(code (fst (UploadApp e pm c w)) = 200) =
       (\<exists>i. body (fst (UploadApp e pm c w)) = [(''uploadResult'', JString (Hex i))])"
    by (auto simp add: UploadApp_def Let_def split: sum.splits option.splits prod.splits list.splits result.splits intro: exI)
  have 3: "fst (UploadApp ''http://s3'' False (upload_request
          [(''app_name'', DString ''testapp''), (''version'', DString ''0.0.1.137'')] [''LICENSE''])
          fresh_world)
       = \<lparr>code = 200, body = [(''uploadResult'', JString (Hex 0))]\<rparr>"
    by code_simp
  from 1 2 3 show ?thesis by blast

qed



section \<open>The check query at the latest version (C2)\<close>

lemma H_set_keeps_flag:
  "k \<noteq> ''update_available'' \<Longrightarrow> map_of (H_set k v h) ''update_available'' = map_of h ''update_available''"
  by (induction h) auto

lemma add_update_urls_keeps_flag:
  "map_of (add_update_urls as h) ''update_available'' = map_of h ''update_available''"
  by (induction as arbitrary: h) (auto simp: H_set_keeps_flag)

text \<open>
  C2. The claim asks, for a client at the latest version, for a reply with
  \<^verbatim>\<open>update_available: false\<close> together with the \<^verbatim>\<open>update_url_<ext>\<close> entries. No reply of
  \<^verbatim>\<open>FindLatestVersion\<close> is of that shape: a body with an \<^verbatim>\<open>update_url_\<close> entry has
  \<^verbatim>\<open>update_available: true\<close>. In scenario S1 the check for version 0.0.2.137 (the latest
  published one) gets the artifacts from the repository and answers
  \<^verbatim>\<open>{update_available: false, error: "Not found"}\<close>.
\<close>

theorem check_equal_has_no_urls:
  "(filter is_update_url (body (fst (FindLatestVersion c db))) = []
     \<or> map_of (body (fst (FindLatestVersion c db))) ''update_available'' = Some (JBool True))
   \<and> fst (FindLatestVersion (check_request ''0.0.2.137'') S1_mongo)
       = \<lparr>code = 200, body = [(''update_available'', JBool False),
                                (''error'', JString ''Not found'')]\<rparr>
   \<and> CheckLatestVersion ''testapp'' ''0.0.2.137'' ''nightly'' ''universalPlatform''
        ''universalArch'' S1_mongo
       = Inr \<lparr>Found = False, FoundArtifacts = Artifacts (S1_release 1 ''0.0.2.137'' True)\<rparr>"

proof -
  have 1: "filter is_update_url (body (fst (FindLatestVersion c db))) = []
     \<or> map_of (body (fst (FindLatestVersion c db))) ''update_available'' = Some (JBool True)"
    by (simp add: FindLatestVersion_def is_update_url_def add_update_urls_keeps_flag
             split: sum.splits list.splits)
  have 2: "fst (FindLatestVersion (check_request ''0.0.2.137'') S1_mongo)
       = \<lparr>code = 200, body = [(''update_available'', JBool False),
                                (''error'', JString ''Not found'')]\<rparr>"
    by code_simp
  have 3: "CheckLatestVersion ''testapp'' ''0.0.2.137'' ''nightly'' ''universalPlatform''
        ''universalArch'' S1_mongo
       = Inr \<lparr>Found = False, FoundArtifacts = Artifacts (S1_release 1 ''0.0.2.137'' True)\<rparr>"
    by code_simp
  from 1 2 3 show ?thesis by blast

qed



section \<open>Store errors in the catalog and delete handlers (C8)\<close>

text \<open>
  C8. The claim asks that an error of the metadata store reaches the caller as a JSON error
  with a non-2xx status. When \<^verbatim>\<open>repository.GetAppByName\<close> returns an error, the search
  handler logs it and answers 200 \<^verbatim>\<open>{"apps": null}\<close>; when \<^verbatim>\<open>repository.DeleteApp\<close> returns
  an error, \<^verbatim>\<open>DeleteApp\<close> logs it and its last reply is 200 with the deleted count. The
  sibling \<^verbatim>\<open>deleteEntity\<close> answers 500 in the same situation.
\<close>

theorem store_errors_answered_200:
  "GetAppByName (\<lambda>appName. (result, Some err)) c
     = (\<lparr>code = 200, body = [(''apps'', JNull)]\<rparr>, [Error err])
   \<and> DeleteApp endpoint (\<lambda>hex. Inr objID) (\<lambda>oid. ([], result', Some err)) c b
     = ([\<lparr>code = 200, body = [(''deleteAppResult.DeletedCount'', result')]\<rparr>], b, [Error err])
   \<and> last (fst (DeleteApp endpoint (\<lambda>hex. Inr objID) (\<lambda>oid. (links, result', Some err)) c b))
     = \<lparr>code = 200, body = [(''deleteAppResult.DeletedCount'', result')]\<rparr>
   \<and> deleteEntity (\<lambda>hex. Inr objID) (\<lambda>itemType oid. (result', Some err)) c ''channel''
     = (\<lparr>code = 500, body = [(''error'', JString ''failed to delete channel'')]\<rparr>, [Error err])"
  by (simp add: GetAppByName_def DeleteApp_def deleteEntity_def slice_json_def
           split: prod.splits)



section \<open>The latest version and a newer client (C1)\<close>

lemma version_less_trans:
  "version_less x y \<Longrightarrow> version_less y z \<Longrightarrow> version_less x z"
  by (cases x; cases y; cases z) auto

lemma version_less_total:
  "version_less x y \<or> x = y \<or> version_less y x"
  by (cases x; cases y) auto

lemma version_less_irrefl: "\<not> version_less x x"
  by (cases x) auto

text \<open>
  The winner chosen by \<open>latest_of\<close> is one of the candidates and no candidate has a larger
  version.
\<close>

lemma latest_of_max:
  "latest_of xs = Some m \<Longrightarrow> m \<in> set xs \<and> list_all (\<lambda>x. \<not> version_less (fst m) (fst x)) xs"

proof (induction xs arbitrary: m)
  case Nil
  then show ?case by simp

next
  case (Cons x xs)
  show ?case
  proof (cases "latest_of xs")
    case None
    then have "xs = []" by (cases xs) (auto split: option.splits if_splits)
    with Cons.prems show ?thesis by (auto simp: version_less_irrefl)
  next
    case (Some y)
    from Cons.IH[OF Some] have ih: "y \<in> set xs" "list_all (\<lambda>x. \<not> version_less (fst y) (fst x)) xs"
      by auto
    show ?thesis
    proof (cases "version_less (fst x) (fst y)")
      case True
      with Some Cons.prems have "m = y" by simp
      moreover from True have "\<not> version_less (fst y) (fst x)"
        using version_less_trans version_less_irrefl by blast
      ultimately show ?thesis using ih
        by (simp add: list_all_iff)
    next
      case False
      with Some Cons.prems have m: "m = x" by simp
      have "\<not> version_less (fst x) (fst z)" if "z \<in> set xs" for z
      proof
        assume a: "version_less (fst x) (fst z)"
        from ih that have nz: "\<not> version_less (fst y) (fst z)" by (auto simp: list_all_iff)
        from version_less_total[of "fst y" "fst x"] False
        have "version_less (fst y) (fst x) \<or> fst y = fst x" by auto
        then show False
        proof
          assume "version_less (fst y) (fst x)"
          from version_less_trans[OF this a] nz show False by simp
        next
          assume "fst y = fst x"
          with a nz show False by simp
        qed
      qed
      with m show ?thesis by (auto simp: list_all_iff version_less_irrefl)
    qed
  qed

qed

text \<open>
  C1. For a check query that passes validation, when the client's version is strictly
  greater than the latest published version for the requested app, channel, platform and
  arch, the handler answers 500 with the body
  \<^verbatim>\<open>{"error": "requested version <v> is newer than the latest version available"}\<close>, and
  the body has no \<^verbatim>\<open>update_available\<close> field.
\<close>

theorem check_newer_than_latest:
  assumes "ValidateParams c db = Inr p"
    and "parse_version (Query c ''version'') = Some v"
    and "getLatestPublished db (Query c ''app_name'') (Query c ''channel'')
           (Query c ''platform'') (Query c ''arch'') = Some (lv, r)"
    and "version_less lv v"
  shows "fst (FindLatestVersion c db)
           = \<lparr>code = 500,
              body = [(''error'', JString (''requested version '' @ Query c ''version''
                         @ '' is newer than the latest version available''))]\<rparr>
         \<and> map_of (body (fst (FindLatestVersion c db))) ''update_available'' = None"
  using assms by (simp add: FindLatestVersion_def CheckLatestVersion_def)

text \<open>
  C1 in scenario S4: the check for version 0.0.3.137 where 0.0.2.137 is the latest
  published version.
\<close>

theorem check_newer_than_latest_witness:
  "fst (FindLatestVersion (check_request ''0.0.3.137'') S1_mongo)
     = \<lparr>code = 500,
        body = [(''error'',
          JString ''requested version 0.0.3.137 is newer than the latest version available'')]\<rparr>
   \<and> map_of (body (fst (FindLatestVersion (check_request ''0.0.3.137'') S1_mongo)))
        ''update_available'' = None"

proof -
  have q: "Query (check_request ''0.0.3.137'') ''version'' = ''0.0.3.137''"
    by code_simp
  have 1: "ValidateParams (check_request ''0.0.3.137'') S1_mongo
             = Inr (request_params (check_request ''0.0.3.137''))"
    by code_simp
  have 2: "parse_version (Query (check_request ''0.0.3.137'') ''version'') = Some (0, 0, 3, 137)"
    by code_simp
  have 3: "getLatestPublished S1_mongo (Query (check_request ''0.0.3.137'') ''app_name'')
             (Query (check_request ''0.0.3.137'') ''channel'')
             (Query (check_request ''0.0.3.137'') ''platform'')
             (Query (check_request ''0.0.3.137'') ''arch'')
           = Some ((0, 0, 2, 137), S1_release 1 ''0.0.2.137'' True)"
    by code_simp
  have 4: "version_less (0, 0, 2, 137) (0, 0, 3, 137)"
    by simp
  from check_newer_than_latest[OF 1 2 3 4] show ?thesis
    unfolding q by simp

qed



section \<open>Duplicate artifacts (C3)\<close>

lemma Upload_duplicate:
  "artifact_present db p ext \<Longrightarrow> Upload p link ext db = (Inl duplicate_error, db)"
  by (auto simp: artifact_present_def Upload_def duplicate_error_def Let_def split: option.splits)

lemma Upload_error:
  "Upload p link ext db = (Inl err, db') \<Longrightarrow> err = duplicate_error \<and> db' = db"
  by (auto simp: Upload_def duplicate_error_def Let_def split: option.splits if_splits)

lemma find_map_replace:
  "find P xs = Some r0 \<Longrightarrow> P r' \<Longrightarrow>
     find P (map (\<lambda>x. if ID x = ID r0 then r' else x) xs) = Some r'"
  by (induction xs) (auto split: if_splits)

lemma Upload_keeps_present:
  assumes "Upload p link ext db = (Inr res, db')" and "artifact_present db p ext'"
  shows "artifact_present db' p ext'"

proof (cases "find (same_release p) (releases db)")
  case None
  with assms(2) show ?thesis by (simp add: artifact_present_def)

next
  case (Some r0)
  let ?art = "\<lparr>Link = link, Platform = str_param p ''platform'', Arch = str_param p ''arch'',
                 Package = ext\<rparr>"
  let ?r' = "r0\<lparr>Artifacts := Artifacts r0 @ [?art],
                 Changelogs := add_changelog p (today db) (Changelogs r0)\<rparr>"
  from Some have P0: "same_release p r0" by (auto simp: find_Some_iff)
  then have P': "same_release p ?r'" by (simp add: same_release_def)
  from assms(1) Some have db': "releases db' = map (\<lambda>x. if ID x = ID r0 then ?r' else x) (releases db)"
    by (auto simp: Upload_def Let_def split: if_splits)
  have "find (same_release p) (releases db') = Some ?r'"
    unfolding db' by (rule find_map_replace[OF Some P'])
  moreover from assms(2) Some have "list_ex (same_artifact p ext') (Artifacts r0)"
    by (simp add: artifact_present_def)
  ultimately show ?thesis
    by (simp add: artifact_present_def list_ex_iff)

qed

lemma store_all_first_duplicate:
  "artifact_present db p (snd le) \<Longrightarrow> store_all p (le # rest) db = (Inl duplicate_error, db)"
  by (simp add: Upload_duplicate)

lemma store_all_duplicate:
  "list_ex (\<lambda>le. artifact_present db p (snd le)) uploaded \<Longrightarrow>
     fst (store_all p uploaded db) = Inl duplicate_error"

proof (induction uploaded arbitrary: db)
  case Nil
  then show ?case by simp

next
  case (Cons le rest)
  obtain r db1 where u: "Upload p (fst le) (snd le) db = (r, db1)"
    by (cases "Upload p (fst le) (snd le) db")
  show ?case
  proof (cases r)
    case (Inl err)
    with u Upload_error[of p "fst le" "snd le" db err db1] show ?thesis by simp
  next
    case (Inr res)
    with u Upload_duplicate[of db p "snd le" "fst le"] have "\<not> artifact_present db p (snd le)"
      by auto
    with Cons.prems have "list_ex (\<lambda>le. artifact_present db p (snd le)) rest" by simp
    then have "list_ex (\<lambda>le. artifact_present db1 p (snd le)) rest"
      using Upload_keeps_present[OF u[unfolded Inr]] by (auto simp: list_ex_iff)
    from Cons.IH[OF this] u Inr show ?thesis
      by (auto split: prod.splits sum.splits)
  qed

qed

lemma uploaded_extensions:
  "fst (upload_all e p files b) = Inr uploaded \<Longrightarrow>
     map snd uploaded = map (\<lambda>f. extension (Filename f)) files"
  using upload_all_ok[of e p files b uploaded "snd (upload_all e p files b)"]
  by (cases "upload_all e p files b") (auto simp: comp_def)

text \<open>
  C3. An upload whose tuple (app_name, version, channel, platform, arch, package) is
  already in the artifact store fails: the store returns the DuplicateArtifact error and
  is unchanged; a request that holds such a file (its blobs uploaded) is answered 500 with
  the body \<^verbatim>\<open>{"error": "app with this name, version, and extension already exists"}\<close>; and
  when the duplicate is the first file of the request (as in a single-file request),
  the metadata store after the request is the one before it.
\<close>

theorem duplicate_artifact_rejected:
  "(artifact_present db p ext \<longrightarrow>
      Upload p link ext db
        = (Inl (Err DuplicateArtifact
             ''app with this name, version, and extension already exists''), db))
   \<and> (ValidateParams c (mongo w) = Inr p \<and> Files c = Some files
        \<and> fst (upload_all e p files (bucket w)) = Inr uploaded
        \<and> list_ex (\<lambda>f. artifact_present (mongo w) p (extension (Filename f))) files
      \<longrightarrow> fst (UploadApp e pm c w)
            = \<lparr>code = 500,
               body = [(''error'',
                 JString ''app with this name, version, and extension already exists'')]\<rparr>)
   \<and> (ValidateParams c (mongo w) = Inr p \<and> Files c = Some (f # fs)
        \<and> fst (upload_all e p (f # fs) (bucket w)) = Inr uploaded
        \<and> artifact_present (mongo w) p (extension (Filename f))
      \<longrightarrow> mongo (snd (UploadApp e pm c w)) = mongo w)"

proof (intro conjI impI)
  assume "artifact_present db p ext"
  then show "Upload p link ext db
        = (Inl (Err DuplicateArtifact
             ''app with this name, version, and extension already exists''), db)"
    using Upload_duplicate by (simp add: duplicate_error_def)

next
  assume a: "ValidateParams c (mongo w) = Inr p \<and> Files c = Some files
        \<and> fst (upload_all e p files (bucket w)) = Inr uploaded
        \<and> list_ex (\<lambda>f. artifact_present (mongo w) p (extension (Filename f))) files"
  then have "map snd uploaded = map (\<lambda>f. extension (Filename f)) files"
    using uploaded_extensions by blast
  then have "snd ` set uploaded = (\<lambda>f. extension (Filename f)) ` set files"
    by (metis list.set_map)
  moreover from a obtain g where "g \<in> set files"
      "artifact_present (mongo w) p (extension (Filename g))"
    by (auto simp: list_ex_iff)
  ultimately obtain le where "le \<in> set uploaded" "snd le = extension (Filename g)"
    by (metis (no_types, lifting) imageE imageI)
  with \<open>artifact_present (mongo w) p (extension (Filename g))\<close>
  have "list_ex (\<lambda>le. artifact_present (mongo w) p (snd le)) uploaded"
    unfolding list_ex_iff by (intro bexI[of _ le]) simp_all
  then have "fst (store_all p uploaded (mongo w)) = Inl duplicate_error"
    by (rule store_all_duplicate)
  with a show "fst (UploadApp e pm c w)
            = \<lparr>code = 500,
               body = [(''error'',
                 JString ''app with this name, version, and extension already exists'')]\<rparr>"
    by (cases "upload_all e p files (bucket w)"; cases "store_all p uploaded (mongo w)")
       (simp add: UploadApp_def duplicate_error_def)

next
  assume a: "ValidateParams c (mongo w) = Inr p \<and> Files c = Some (f # fs)
        \<and> fst (upload_all e p (f # fs) (bucket w)) = Inr uploaded
        \<and> artifact_present (mongo w) p (extension (Filename f))"
  then have "map snd uploaded = map (\<lambda>f. extension (Filename f)) (f # fs)"
    using uploaded_extensions by blast
  then obtain le rest where u: "uploaded = le # rest" "snd le = extension (Filename f)"
    by (cases uploaded) auto
  from a u have "artifact_present (mongo w) p (snd le)" by simp
  from store_all_first_duplicate[OF this, of rest] u(1)
  have "store_all p uploaded (mongo w) = (Inl duplicate_error, mongo w)"
    by (simp only:)
  with a show "mongo (snd (UploadApp e pm c w)) = mongo w"
    by (cases "upload_all e p (f # fs) (bucket w)") (simp add: UploadApp_def)

qed

text \<open>
  C3 in scenario S6: a second upload of \<^verbatim>\<open>testapp.dmg\<close> for (testapp, 0.0.1.137, nightly,
  universalPlatform, universalArch).
\<close>

theorem duplicate_artifact_rejected_witness:
  "fst (UploadApp ''http://s3'' True
          (upload_request (nightly_payload ''0.0.1.137'' True) [''testapp.dmg'']) S1_world)
     = \<lparr>code = 500,
        body = [(''error'',
          JString ''app with this name, version, and extension already exists'')]\<rparr>
   \<and> mongo (snd (UploadApp ''http://s3'' True
          (upload_request (nightly_payload ''0.0.1.137'' True) [''testapp.dmg'']) S1_world))
     = S1_mongo
   \<and> fst (Upload (nightly_payload ''0.0.1.137'' True) ''http://s3/x'' ''.dmg'' S1_mongo)
     = Inl (Err DuplicateArtifact ''app with this name, version, and extension already exists'')"

proof -
  let ?c = "upload_request (nightly_payload ''0.0.1.137'' True) [''testapp.dmg'']"
  let ?p = "nightly_payload ''0.0.1.137'' True"
  let ?f = "\<lparr>Filename = ''testapp.dmg'', Content = ''bytes''\<rparr>"
  have v: "ValidateParams ?c (mongo S1_world) = Inr ?p" by code_simp
  have fl: "Files ?c = Some (?f # [])" by code_simp
  have up: "fst (upload_all ''http://s3'' ?p (?f # []) (bucket S1_world))
              = Inr [(''http://s3/testapp/testapp-0.0.1.137.dmg'', ''.dmg'')]"
    by code_simp
  have pr: "artifact_present (mongo S1_world) ?p (extension (Filename ?f))" by code_simp
  have pr': "artifact_present S1_mongo ?p ''.dmg''" by code_simp
  have ex: "list_ex (\<lambda>f. artifact_present (mongo S1_world) ?p (extension (Filename f))) (?f # [])"
    using pr by simp
  have m: "mongo S1_world = S1_mongo" by (simp add: S1_world_def)
  note t = duplicate_artifact_rejected[of S1_mongo ?p "''.dmg''" "''http://s3/x''" ?c S1_world
             "?f # []" "''http://s3''" "[(''http://s3/testapp/testapp-0.0.1.137.dmg'', ''.dmg'')]"
             True ?f "[]"]
  from t v fl up ex have 1: "fst (UploadApp ''http://s3'' True ?c S1_world)
     = \<lparr>code = 500,
        body = [(''error'',
          JString ''app with this name, version, and extension already exists'')]\<rparr>"
    by blast
  from t v fl up pr have 2: "mongo (snd (UploadApp ''http://s3'' True ?c S1_world)) = mongo S1_world"
    by blast
  from t pr' have 3: "Upload ?p ''http://s3/x'' ''.dmg'' S1_mongo
     = (Inl (Err DuplicateArtifact ''app with this name, version, and extension already exists''), S1_mongo)"
    by blast
  from 1 2 3 m show ?thesis by simp

qed



section \<open>The dimension gate (C4)\<close>

lemma dimension_check_gate:
  "records \<noteq> [] \<Longrightarrow> str_param p name = [] \<Longrightarrow>
     dimension_check name records p = Some (Err DimensionRequired (required_message name))"
  by (cases records) (simp_all add: dimension_check_def required_message_def)

lemma dimension_check_free:
  "str_param p name = [] \<Longrightarrow> dimension_check name [] p = None"
  by (simp add: dimension_check_def)

lemma UploadApp_invalid:
  "ValidateParams c (mongo w) = Inl err \<Longrightarrow>
     UploadApp e pm c w = (\<lparr>code = 400, body = [(''error'', JString (Error err))]\<rparr>, w)"
  by (simp add: UploadApp_def)

lemma ValidateParams_gate:
  assumes "(channels db \<noteq> [] \<and> omitted ''channel'' c)
         \<or> (platforms db \<noteq> [] \<and> omitted ''platform'' c)
         \<or> (archs db \<noteq> [] \<and> omitted ''arch'' c)"
  shows "\<exists>err. ValidateParams c db = Inl err"
  using assms
  by (auto simp: ValidateParams_def Let_def omitted_def dimension_check_gate
           split: option.splits)

lemma ValidateParams_core:
  "core_params_ok c db \<Longrightarrow>
     ValidateParams c db =
       (case dimension_check ''channel'' (channels db) (request_params c) of
          Some e \<Rightarrow> Inl e
        | None \<Rightarrow>
          (case dimension_check ''platform'' (platforms db) (request_params c) of
             Some e \<Rightarrow> Inl e
           | None \<Rightarrow>
             (case dimension_check ''arch'' (archs db) (request_params c) of
                Some e \<Rightarrow> Inl e
              | None \<Rightarrow> Inr (request_params c))))"
  by (auto simp: ValidateParams_def Let_def core_params_ok_def split: option.splits)

lemma UploadApp_single_fresh:
  assumes v: "ValidateParams c (mongo w) = Inr p"
    and f: "Files c = Some [f]"
    and k: "s3Key (str_param p ''app_name'') (str_param p ''version'') (Filename f)
              \<notin> set (refused (bucket w))"
    and n: "\<not> artifact_present (mongo w) p (extension (Filename f))"
  shows "\<exists>i. fst (UploadApp e pm c w) = \<lparr>code = 200, body = [(''uploadResult'', JString (Hex i))]\<rparr>"

proof -
  from k have u: "upload_all e p [f] (bucket w)
      = (Inr [(link_of e (str_param p ''app_name'') (str_param p ''version'') (Filename f),
               extension (Filename f))],
         snd (PutObject (bucket w) (s3Key (str_param p ''app_name'') (str_param p ''version'') (Filename f)) (Content f)))"
    by (simp add: UploadToS3_def Let_def PutObject_def)
  from n obtain r db' where s: "Upload p (link_of e (str_param p ''app_name'') (str_param p ''version'') (Filename f))
            (extension (Filename f)) (mongo w) = (Inr (IsSpecificApp r), db')"
    by (auto simp: Upload_def artifact_present_def Let_def split: option.splits)
  from v f u s show ?thesis
    by (auto simp: UploadApp_def Let_def)

qed

lemma UploadApp_valid_single:
  assumes "core_params_ok c (mongo w)"
    and "dimension_ok ''channel'' (channels (mongo w)) c"
    and "dimension_ok ''platform'' (platforms (mongo w)) c"
    and "dimension_ok ''arch'' (archs (mongo w)) c"
    and "single_fresh_file c w f"
  shows "code (fst (UploadApp e pm c w)) = 200"

proof -
  from assms(1-4) have v: "ValidateParams c (mongo w) = Inr (request_params c)"
    by (simp add: ValidateParams_core dimension_ok_def)
  from assms(5) UploadApp_single_fresh[OF v, of f e pm]
  show ?thesis by (auto simp: single_fresh_file_def)

qed

text \<open>
  C4. If at least one Channel record exists and the request omits \<^verbatim>\<open>channel\<close>, the upload
  is answered 400 and no store is touched; for a request whose app name and version are
  valid the body is \<^verbatim>\<open>{"error": "you have a created channels, setting channel is required"}\<close>.
  The same holds for Platform and Architecture (the message of a later dimension when the
  earlier checks pass). If a dimension has no record, a request that omits it, is valid
  otherwise and carries one new file is answered 200.
\<close>

theorem dimension_gate:
  "(((channels (mongo w) \<noteq> [] \<and> omitted ''channel'' c)
      \<or> (platforms (mongo w) \<noteq> [] \<and> omitted ''platform'' c)
      \<or> (archs (mongo w) \<noteq> [] \<and> omitted ''arch'' c))
     \<longrightarrow> code (fst (UploadApp e pm c w)) = 400 \<and> snd (UploadApp e pm c w) = w)
   \<and> (core_params_ok c (mongo w) \<and> channels (mongo w) \<noteq> [] \<and> omitted ''channel'' c
     \<longrightarrow> UploadApp e pm c w
           = (\<lparr>code = 400, body = [(''error'',
                JString ''you have a created channels, setting channel is required'')]\<rparr>, w))
   \<and> (core_params_ok c (mongo w) \<and> dimension_ok ''channel'' (channels (mongo w)) c
        \<and> platforms (mongo w) \<noteq> [] \<and> omitted ''platform'' c
     \<longrightarrow> UploadApp e pm c w
           = (\<lparr>code = 400, body = [(''error'',
                JString ''you have a created platforms, setting platform is required'')]\<rparr>, w))
   \<and> (core_params_ok c (mongo w) \<and> dimension_ok ''channel'' (channels (mongo w)) c
        \<and> dimension_ok ''platform'' (platforms (mongo w)) c
        \<and> archs (mongo w) \<noteq> [] \<and> omitted ''arch'' c
     \<longrightarrow> UploadApp e pm c w
           = (\<lparr>code = 400, body = [(''error'',
                JString ''you have a created archs, setting arch is required'')]\<rparr>, w))
   \<and> (core_params_ok c (mongo w) \<and> channels (mongo w) = [] \<and> omitted ''channel'' c
        \<and> dimension_ok ''platform'' (platforms (mongo w)) c
        \<and> dimension_ok ''arch'' (archs (mongo w)) c \<and> single_fresh_file c w f
     \<longrightarrow> code (fst (UploadApp e pm c w)) = 200)
   \<and> (core_params_ok c (mongo w) \<and> platforms (mongo w) = [] \<and> omitted ''platform'' c
        \<and> dimension_ok ''channel'' (channels (mongo w)) c
        \<and> dimension_ok ''arch'' (archs (mongo w)) c \<and> single_fresh_file c w f
     \<longrightarrow> code (fst (UploadApp e pm c w)) = 200)
   \<and> (core_params_ok c (mongo w) \<and> archs (mongo w) = [] \<and> omitted ''arch'' c
        \<and> dimension_ok ''channel'' (channels (mongo w)) c
        \<and> dimension_ok ''platform'' (platforms (mongo w)) c \<and> single_fresh_file c w f
     \<longrightarrow> code (fst (UploadApp e pm c w)) = 200)"

proof (intro conjI impI)
  assume "(channels (mongo w) \<noteq> [] \<and> omitted ''channel'' c)
      \<or> (platforms (mongo w) \<noteq> [] \<and> omitted ''platform'' c)
      \<or> (archs (mongo w) \<noteq> [] \<and> omitted ''arch'' c)"
  from ValidateParams_gate[OF this] obtain err where "ValidateParams c (mongo w) = Inl err" ..
  from UploadApp_invalid[OF this]
  show "code (fst (UploadApp e pm c w)) = 400" "snd (UploadApp e pm c w) = w"
    by simp_all

next
  assume a: "core_params_ok c (mongo w) \<and> channels (mongo w) \<noteq> [] \<and> omitted ''channel'' c"
  then have "ValidateParams c (mongo w)
               = Inl (Err DimensionRequired (required_message ''channel''))"
    by (simp add: ValidateParams_core omitted_def dimension_check_gate)
  from UploadApp_invalid[OF this]
  show "UploadApp e pm c w
           = (\<lparr>code = 400, body = [(''error'',
                JString ''you have a created channels, setting channel is required'')]\<rparr>, w)"
    by (simp add: required_message_def)

next
  assume a: "core_params_ok c (mongo w) \<and> dimension_ok ''channel'' (channels (mongo w)) c
        \<and> platforms (mongo w) \<noteq> [] \<and> omitted ''platform'' c"
  then have "ValidateParams c (mongo w)
               = Inl (Err DimensionRequired (required_message ''platform''))"
    by (simp add: ValidateParams_core omitted_def dimension_ok_def dimension_check_gate)
  from UploadApp_invalid[OF this]
  show "UploadApp e pm c w
           = (\<lparr>code = 400, body = [(''error'',
                JString ''you have a created platforms, setting platform is required'')]\<rparr>, w)"
    by (simp add: required_message_def)

next
  assume a: "core_params_ok c (mongo w) \<and> dimension_ok ''channel'' (channels (mongo w)) c
        \<and> dimension_ok ''platform'' (platforms (mongo w)) c
        \<and> archs (mongo w) \<noteq> [] \<and> omitted ''arch'' c"
  then have "ValidateParams c (mongo w)
               = Inl (Err DimensionRequired (required_message ''arch''))"
    by (simp add: ValidateParams_core omitted_def dimension_ok_def dimension_check_gate)
  from UploadApp_invalid[OF this]
  show "UploadApp e pm c w
           = (\<lparr>code = 400, body = [(''error'',
                JString ''you have a created archs, setting arch is required'')]\<rparr>, w)"
    by (simp add: required_message_def)

next
  assume a: "core_params_ok c (mongo w) \<and> channels (mongo w) = [] \<and> omitted ''channel'' c
        \<and> dimension_ok ''platform'' (platforms (mongo w)) c
        \<and> dimension_ok ''arch'' (archs (mongo w)) c \<and> single_fresh_file c w f"
  then have "dimension_ok ''channel'' (channels (mongo w)) c"
    by (simp add: dimension_ok_def omitted_def dimension_check_free)
  with a show "code (fst (UploadApp e pm c w)) = 200"
    using UploadApp_valid_single by blast

next
  assume a: "core_params_ok c (mongo w) \<and> platforms (mongo w) = [] \<and> omitted ''platform'' c
        \<and> dimension_ok ''channel'' (channels (mongo w)) c
        \<and> dimension_ok ''arch'' (archs (mongo w)) c \<and> single_fresh_file c w f"
  then have "dimension_ok ''platform'' (platforms (mongo w)) c"
    by (simp add: dimension_ok_def omitted_def dimension_check_free)
  with a show "code (fst (UploadApp e pm c w)) = 200"
    using UploadApp_valid_single by blast

next
  assume a: "core_params_ok c (mongo w) \<and> archs (mongo w) = [] \<and> omitted ''arch'' c
        \<and> dimension_ok ''channel'' (channels (mongo w)) c
        \<and> dimension_ok ''platform'' (platforms (mongo w)) c \<and> single_fresh_file c w f"
  then have "dimension_ok ''arch'' (archs (mongo w)) c"
    by (simp add: dimension_ok_def omitted_def dimension_check_free)
  with a show "code (fst (UploadApp e pm c w)) = 200"
    using UploadApp_valid_single by blast

qed

text \<open>
  C4 in scenario S5 and in the tests \<^verbatim>\<open>TestUploadAppWithoutPlatform\<close>,
  \<^verbatim>\<open>TestUploadAppWithoutArch\<close> and \<^verbatim>\<open>TestUpload\<close>.
\<close>

theorem dimension_gate_witness:
  "UploadApp ''http://s3'' True (upload_request (plain_payload []) [''LICENSE''])
       (dimension_world [''nightly''] [] [])
     = (\<lparr>code = 400, body = [(''error'',
          JString ''you have a created channels, setting channel is required'')]\<rparr>,
        dimension_world [''nightly''] [] [])
   \<and> UploadApp ''http://s3'' True
       (upload_request (plain_payload [(''channel'', ''nightly'')]) [''LICENSE''])
       (dimension_world [''nightly''] [''universalPlatform''] [])
     = (\<lparr>code = 400, body = [(''error'',
          JString ''you have a created platforms, setting platform is required'')]\<rparr>,
        dimension_world [''nightly''] [''universalPlatform''] [])
   \<and> UploadApp ''http://s3'' True
       (upload_request (plain_payload [(''channel'', ''nightly''),
          (''platform'', ''universalPlatform'')]) [''LICENSE''])
       (dimension_world [''nightly''] [''universalPlatform''] [''universalArch''])
     = (\<lparr>code = 400, body = [(''error'',
          JString ''you have a created archs, setting arch is required'')]\<rparr>,
        dimension_world [''nightly''] [''universalPlatform''] [''universalArch''])
   \<and> code (fst (UploadApp ''http://s3'' True (upload_request (plain_payload []) [''LICENSE''])
       (dimension_world [] [] []))) = 200"

proof -
  let ?f = "\<lparr>Filename = ''LICENSE'', Content = ''bytes''\<rparr>"
  let ?c1 = "upload_request (plain_payload []) [''LICENSE'']"
  let ?w1 = "dimension_world [''nightly''] [] []"
  have 1: "core_params_ok ?c1 (mongo ?w1) \<and> channels (mongo ?w1) \<noteq> []
             \<and> omitted ''channel'' ?c1"
    by code_simp
  let ?c2 = "upload_request (plain_payload [(''channel'', ''nightly'')]) [''LICENSE'']"
  let ?w2 = "dimension_world [''nightly''] [''universalPlatform''] []"
  have 2: "core_params_ok ?c2 (mongo ?w2) \<and> dimension_ok ''channel'' (channels (mongo ?w2)) ?c2
             \<and> platforms (mongo ?w2) \<noteq> [] \<and> omitted ''platform'' ?c2"
    by code_simp
  let ?c3 = "upload_request (plain_payload [(''channel'', ''nightly''),
          (''platform'', ''universalPlatform'')]) [''LICENSE'']"
  let ?w3 = "dimension_world [''nightly''] [''universalPlatform''] [''universalArch'']"
  have 3: "core_params_ok ?c3 (mongo ?w3) \<and> dimension_ok ''channel'' (channels (mongo ?w3)) ?c3
             \<and> dimension_ok ''platform'' (platforms (mongo ?w3)) ?c3
             \<and> archs (mongo ?w3) \<noteq> [] \<and> omitted ''arch'' ?c3"
    by code_simp
  let ?w4 = "dimension_world [] [] []"
  have 4: "core_params_ok ?c1 (mongo ?w4) \<and> channels (mongo ?w4) = [] \<and> omitted ''channel'' ?c1
        \<and> dimension_ok ''platform'' (platforms (mongo ?w4)) ?c1
        \<and> dimension_ok ''arch'' (archs (mongo ?w4)) ?c1 \<and> single_fresh_file ?c1 ?w4 ?f"
    by code_simp
  from dimension_gate[of ?w1 ?c1 "''http://s3''" True ?f] 1
  have a: "UploadApp ''http://s3'' True ?c1 ?w1
     = (\<lparr>code = 400, body = [(''error'',
          JString ''you have a created channels, setting channel is required'')]\<rparr>, ?w1)"
    by blast
  from dimension_gate[of ?w2 ?c2 "''http://s3''" True ?f] 2
  have b: "UploadApp ''http://s3'' True ?c2 ?w2
     = (\<lparr>code = 400, body = [(''error'',
          JString ''you have a created platforms, setting platform is required'')]\<rparr>, ?w2)"
    by blast
  from dimension_gate[of ?w3 ?c3 "''http://s3''" True ?f] 3
  have c: "UploadApp ''http://s3'' True ?c3 ?w3
     = (\<lparr>code = 400, body = [(''error'',
          JString ''you have a created archs, setting arch is required'')]\<rparr>, ?w3)"
    by blast
  from dimension_gate[of ?w4 ?c1 "''http://s3''" True ?f] 4
  have d: "code (fst (UploadApp ''http://s3'' True ?c1 ?w4)) = 200"
    by blast
  from a b c d show ?thesis by blast

qed



section \<open>Cache invalidation (C6)\<close>

lemma Del_result:
  "Del r key = (if key \<in> set (del_failing r) then (Some (Err CacheError ''del failed''), r)
                else (None, r\<lparr>entries := filter (\<lambda>kv. fst kv \<noteq> key) (entries r)\<rparr>))"
  by (simp add: Del_def)

text \<open>
  The deletion loop: a key is removed unless its \<^verbatim>\<open>DEL\<close> fails, and each failure is logged.
\<close>

lemma invalidate_keys_result:
  "invalidate_keys ks r =
     (r\<lparr>entries := filter (\<lambda>kv. \<not> (fst kv \<in> set ks \<and> fst kv \<notin> set (del_failing r))) (entries r)\<rparr>,
      map del_log (filter (\<lambda>k. k \<in> set (del_failing r)) ks))"

proof (induction ks arbitrary: r)
  case Nil
  then show ?case by simp

next
  case (Cons k ks)
  show ?case
  proof (cases "k \<in> set (del_failing r)")
    case True
    then show ?thesis
      by (auto simp: Del_result Cons.IH del_log_def intro!: filter_cong arg_cong[where f="\<lambda>x. r\<lparr>entries := x\<rparr>"])
  next
    case False
    then show ?thesis
      by (auto simp: Del_result Cons.IH intro!: filter_cong arg_cong[where f="\<lambda>x. r\<lparr>entries := x\<rparr>"])
  qed

qed

lemma InvalidateCache_ok:
  assumes "keys_failure r = None"
  shows "InvalidateCache p r =
     (None, r\<lparr>entries := survivors r (cache_pattern p)\<rparr>,
      map del_log (filter (\<lambda>k. k \<in> set (del_failing r))
        (filter (glob_match (cache_pattern p)) (map fst (entries r)))))"

proof -
  define ks where "ks = filter (glob_match (cache_pattern p)) (map fst (entries r))"
  have k: "Keys r (cache_pattern p) = Inr ks"
    using assms by (simp add: Keys_def ks_def)
  have s: "filter (\<lambda>kv. \<not> (fst kv \<in> set ks \<and> fst kv \<notin> set (del_failing r))) (entries r)
        = survivors r (cache_pattern p)"
    unfolding survivors_def ks_def by (rule filter_cong) auto
  show ?thesis
  proof (cases ks)
    case Nil
    then have "\<forall>kv \<in> set (entries r). \<not> glob_match (cache_pattern p) (fst kv)"
      unfolding ks_def by (auto simp: filter_empty_conv)
    then have "survivors r (cache_pattern p) = entries r"
      by (auto simp: survivors_def filter_id_conv)
    with Nil k show ?thesis
      unfolding ks_def[symmetric] by (simp add: InvalidateCache_def)
  next
    case (Cons a list)
    then have "length ks \<noteq> 0" by simp
    with k have "InvalidateCache p r
        = (case invalidate_keys ks r of (r', lg) \<Rightarrow> (None, r', lg))"
      by (simp add: InvalidateCache_def)
    then show ?thesis
      unfolding ks_def[symmetric] invalidate_keys_result s by simp
  qed

qed

lemma InvalidateCache_keys_error:
  "keys_failure r = Some err \<Longrightarrow>
     InvalidateCache p r =
       (Some (Err CacheError (''failed to fetch keys for invalidation: '' @ Error err)), r, [])"
  by (simp add: InvalidateCache_def Keys_def)

lemma survivors_no_failure:
  "del_failing r = [] \<Longrightarrow> list_all (\<lambda>kv. \<not> glob_match pattern (fst kv)) (survivors r pattern)"
  by (simp add: survivors_def list_all_iff)

lemma invalidate_step_commute:
  "invalidate_step pm p (w\<lparr>mongo := db, bucket := b\<rparr>)
     = (invalidate_step pm p w)\<lparr>mongo := db, bucket := b\<rparr>"
  by (simp add: invalidate_step_def split: option.splits prod.splits)

lemma invalidate_step_unpublished:
  "\<not> GetBoolParam (map_of p ''publish'') \<Longrightarrow> invalidate_step pm p w = w"
  by (simp add: invalidate_step_def split: option.splits)

lemma invalidate_step_inactive:
  "\<not> pm \<or> rdb w = None \<Longrightarrow> invalidate_step pm p w = w"
  by (auto simp: invalidate_step_def split: option.splits)

lemma invalidate_step_ok:
  "pm \<Longrightarrow> rdb w = Some r \<Longrightarrow> GetBoolParam (map_of p ''publish'') \<Longrightarrow> keys_failure r = None \<Longrightarrow>
     invalidate_step pm p w
       = w\<lparr>rdb := Some (r\<lparr>entries := survivors r (cache_pattern p)\<rparr>),
           logged := logged w @ map del_log (filter (\<lambda>k. k \<in> set (del_failing r))
             (filter (glob_match (cache_pattern p)) (map fst (entries r))))\<rparr>"
  by (simp add: invalidate_step_def InvalidateCache_ok)

lemma invalidate_step_keys_error:
  "pm \<Longrightarrow> rdb w = Some r \<Longrightarrow> GetBoolParam (map_of p ''publish'') \<Longrightarrow> keys_failure r = Some err \<Longrightarrow>
     invalidate_step pm p w
       = w\<lparr>rdb := Some r,
           logged := logged w
             @ [''Error invalidating cache:'' @ ''failed to fetch keys for invalidation: '' @ Error err]\<rparr>"
  by (simp add: invalidate_step_def InvalidateCache_keys_error)

lemma UploadApp_success_cache:
  assumes "ValidateParams c (mongo w) = Inr p" and "code (fst (UploadApp e pm c w)) = 200"
  shows "rdb (snd (UploadApp e pm c w)) = rdb (invalidate_step pm p w)
       \<and> logged (snd (UploadApp e pm c w)) = logged (invalidate_step pm p w)"
  using assms
  by (auto simp: UploadApp_def Let_def invalidate_step_commute
           split: option.splits prod.splits sum.splits list.splits result.splits)

lemma UploadApp_reply_without_cache:
  "fst (UploadApp e pm c w) = fst (UploadApp e False c (w\<lparr>rdb := None\<rparr>))"
  by (auto simp: UploadApp_def Let_def
           split: option.splits prod.splits sum.splits list.splits result.splits)

lemma UploadApp_unpublished_cache:
  assumes "ValidateParams c (mongo w) = Inr p" and "\<not> GetBoolParam (map_of p ''publish'')"
  shows "rdb (snd (UploadApp e pm c w)) = rdb w"
  using assms
  by (auto simp: UploadApp_def Let_def invalidate_step_unpublished
           split: option.splits prod.splits sum.splits list.splits result.splits)

text \<open>
  C6. With the cache active, after a successful upload with \<^verbatim>\<open>publish\<close> true the cache
  holds the \<open>survivors\<close>: every key that matches
  \<^verbatim>\<open>app_name=<a>&version=*&channel=<c>&platform=*&arch=*\<close> is deleted unless its deletion
  fails, so with no failing deletion no matching key is left. A failed deletion and a
  failed key listing are logged. With \<^verbatim>\<open>publish\<close> false the cache is not touched. The
  reply never depends on the cache: it is the reply of the same upload without cache.
\<close>

theorem cache_invalidation_on_publish:
  "(ValidateParams c (mongo w) = Inr p \<and> pm \<and> rdb w = Some r
      \<and> code (fst (UploadApp e pm c w)) = 200 \<and> GetBoolParam (map_of p ''publish'')
      \<and> keys_failure r = None
     \<longrightarrow> rdb (snd (UploadApp e pm c w)) = Some (r\<lparr>entries := survivors r (cache_pattern p)\<rparr>)
        \<and> (del_failing r = [] \<longrightarrow>
             list_all (\<lambda>kv. \<not> glob_match (cache_pattern p) (fst kv))
               (survivors r (cache_pattern p)))
        \<and> logged (snd (UploadApp e pm c w))
            = logged w @ map del_log (filter (\<lambda>k. k \<in> set (del_failing r))
                (filter (glob_match (cache_pattern p)) (map fst (entries r)))))
   \<and> (ValidateParams c (mongo w) = Inr p \<and> pm \<and> rdb w = Some r
      \<and> code (fst (UploadApp e pm c w)) = 200 \<and> GetBoolParam (map_of p ''publish'')
      \<and> keys_failure r = Some err
     \<longrightarrow> rdb (snd (UploadApp e pm c w)) = Some r
        \<and> logged (snd (UploadApp e pm c w))
            = logged w @ [''Error invalidating cache:''
                @ ''failed to fetch keys for invalidation: '' @ Error err])
   \<and> (ValidateParams c (mongo w) = Inr p \<and> \<not> GetBoolParam (map_of p ''publish'')
     \<longrightarrow> rdb (snd (UploadApp e pm c w)) = rdb w)
   \<and> fst (UploadApp e pm c w) = fst (UploadApp e False c (w\<lparr>rdb := None\<rparr>))
   \<and> cache_pattern p
       = ''app_name='' @ str_param p ''app_name'' @ ''&version=*&channel=''
           @ str_param p ''channel'' @ ''&platform=*&arch=*''"

proof (intro conjI impI)
  assume a: "ValidateParams c (mongo w) = Inr p \<and> pm \<and> rdb w = Some r
      \<and> code (fst (UploadApp e pm c w)) = 200 \<and> GetBoolParam (map_of p ''publish'')
      \<and> keys_failure r = None"
  then have s: "rdb (snd (UploadApp e pm c w)) = rdb (invalidate_step pm p w)"
     "logged (snd (UploadApp e pm c w)) = logged (invalidate_step pm p w)"
    using UploadApp_success_cache by blast+
  from a have i: "invalidate_step pm p w
       = w\<lparr>rdb := Some (r\<lparr>entries := survivors r (cache_pattern p)\<rparr>),
           logged := logged w @ map del_log (filter (\<lambda>k. k \<in> set (del_failing r))
             (filter (glob_match (cache_pattern p)) (map fst (entries r))))\<rparr>"
    using invalidate_step_ok by blast
  show "rdb (snd (UploadApp e pm c w)) = Some (r\<lparr>entries := survivors r (cache_pattern p)\<rparr>)"
    unfolding s i by simp
  show "logged (snd (UploadApp e pm c w))
            = logged w @ map del_log (filter (\<lambda>k. k \<in> set (del_failing r))
                (filter (glob_match (cache_pattern p)) (map fst (entries r))))"
    unfolding s i by simp
  assume "del_failing r = []"
  then show "list_all (\<lambda>kv. \<not> glob_match (cache_pattern p) (fst kv))
               (survivors r (cache_pattern p))"
    by (rule survivors_no_failure)

next
  assume a: "ValidateParams c (mongo w) = Inr p \<and> pm \<and> rdb w = Some r
      \<and> code (fst (UploadApp e pm c w)) = 200 \<and> GetBoolParam (map_of p ''publish'')
      \<and> keys_failure r = Some err"
  then have s: "rdb (snd (UploadApp e pm c w)) = rdb (invalidate_step pm p w)"
     "logged (snd (UploadApp e pm c w)) = logged (invalidate_step pm p w)"
    using UploadApp_success_cache by blast+
  from a have i: "invalidate_step pm p w
       = w\<lparr>rdb := Some r,
           logged := logged w
             @ [''Error invalidating cache:'' @ ''failed to fetch keys for invalidation: '' @ Error err]\<rparr>"
    using invalidate_step_keys_error by blast
  show "rdb (snd (UploadApp e pm c w)) = Some r"
    unfolding s i by simp
  show "logged (snd (UploadApp e pm c w))
            = logged w @ [''Error invalidating cache:''
                @ ''failed to fetch keys for invalidation: '' @ Error err]"
    unfolding s i by simp

next
  assume "ValidateParams c (mongo w) = Inr p \<and> \<not> GetBoolParam (map_of p ''publish'')"
  then show "rdb (snd (UploadApp e pm c w)) = rdb w"
    using UploadApp_unpublished_cache by blast

next
  show "fst (UploadApp e pm c w) = fst (UploadApp e False c (w\<lparr>rdb := None\<rparr>))"
    by (rule UploadApp_reply_without_cache)

next
  show "cache_pattern p
       = ''app_name='' @ str_param p ''app_name'' @ ''&version=*&channel=''
           @ str_param p ''channel'' @ ''&platform=*&arch=*''"
    by (simp add: cache_pattern_def)

qed

text \<open>
  C6 in scenario S1 with three cached answers: a published upload for (testapp, nightly)
  leaves only the key of the stable channel; an unpublished one leaves the cache as it is;
  a failing key listing is logged.
\<close>

theorem cache_invalidation_on_publish_witness:
  "rdb (snd (UploadApp ''http://s3'' True
        (upload_request (nightly_payload ''0.0.4.137'' True) [''testapp.dmg'']) S1_world))
     = Some (S1_redis\<lparr>entries := [(cached_key ''0.0.4.137'' ''stable'', ''b'')]\<rparr>)
   \<and> rdb (snd (UploadApp ''http://s3'' True
        (upload_request (nightly_payload ''0.0.4.137'' False) [''testapp.dmg'']) S1_world))
     = Some S1_redis
   \<and> logged (snd (UploadApp ''http://s3'' True
        (upload_request (nightly_payload ''0.0.4.137'' True) [''testapp.dmg''])
        (S1_world\<lparr>rdb := Some (S1_redis\<lparr>keys_failure := Some (Err CacheError ''timeout'')\<rparr>)\<rparr>)))
     = [''Error invalidating cache:failed to fetch keys for invalidation: timeout'']"

proof -
  let ?c = "upload_request (nightly_payload ''0.0.4.137'' True) [''testapp.dmg'']"
  let ?p = "nightly_payload ''0.0.4.137'' True"
  let ?c' = "upload_request (nightly_payload ''0.0.4.137'' False) [''testapp.dmg'']"
  let ?p' = "nightly_payload ''0.0.4.137'' False"
  let ?r2 = "S1_redis\<lparr>keys_failure := Some (Err CacheError ''timeout'')\<rparr>"
  let ?w2 = "S1_world\<lparr>rdb := Some ?r2\<rparr>"
  have 1: "ValidateParams ?c (mongo S1_world) = Inr ?p \<and> True \<and> rdb S1_world = Some S1_redis
      \<and> code (fst (UploadApp ''http://s3'' True ?c S1_world)) = 200
      \<and> GetBoolParam (map_of ?p ''publish'') \<and> keys_failure S1_redis = None"
    by code_simp
  have s: "survivors S1_redis (cache_pattern ?p) = [(cached_key ''0.0.4.137'' ''stable'', ''b'')]"
    by code_simp
  have 2: "ValidateParams ?c' (mongo S1_world) = Inr ?p' \<and> \<not> GetBoolParam (map_of ?p' ''publish'')"
    by code_simp
  have 3: "ValidateParams ?c (mongo ?w2) = Inr ?p \<and> True \<and> rdb ?w2 = Some ?r2
      \<and> code (fst (UploadApp ''http://s3'' True ?c ?w2)) = 200
      \<and> GetBoolParam (map_of ?p ''publish'')
      \<and> keys_failure ?r2 = Some (Err CacheError ''timeout'')"
    by code_simp
  have l: "logged ?w2 = []" by code_simp
  have w: "rdb S1_world = Some S1_redis" by code_simp
  from cache_invalidation_on_publish[of ?c S1_world ?p True S1_redis "''http://s3''"] 1
  have a: "rdb (snd (UploadApp ''http://s3'' True ?c S1_world))
     = Some (S1_redis\<lparr>entries := survivors S1_redis (cache_pattern ?p)\<rparr>)"
    by blast
  from cache_invalidation_on_publish[of ?c' S1_world ?p' True S1_redis "''http://s3''"] 2
  have b: "rdb (snd (UploadApp ''http://s3'' True ?c' S1_world)) = rdb S1_world"
    by blast
  from cache_invalidation_on_publish[of ?c ?w2 ?p True ?r2 "''http://s3''" "Err CacheError ''timeout''"] 3
  have c: "logged (snd (UploadApp ''http://s3'' True ?c ?w2))
            = logged ?w2 @ [''Error invalidating cache:''
                @ ''failed to fetch keys for invalidation: '' @ Error (Err CacheError ''timeout'')]"
    by blast
  from a b c show ?thesis unfolding s l w by simp

qed



section \<open>Uploads without files (C10)\<close>

text \<open>
  C10 (as amended). A validated upload request with zero parts in the field \<^verbatim>\<open>file\<close> is
  answered 500 with the body \<^verbatim>\<open>{"error": "no results found. Please check your files."}\<close>;
  no blob is uploaded and no metadata is written; and when the cache is not active or
  \<^verbatim>\<open>publish\<close> is not true, nothing at all changes, so no cache key is deleted.
\<close>

theorem upload_without_files:
  "ValidateParams c (mongo w) = Inr p \<and> Files c = Some [] \<longrightarrow>
     fst (UploadApp e pm c w)
       = \<lparr>code = 500,
          body = [(''error'', JString ''no results found. Please check your files.'')]\<rparr>
     \<and> mongo (snd (UploadApp e pm c w)) = mongo w
     \<and> bucket (snd (UploadApp e pm c w)) = bucket w
     \<and> (\<not> pm \<or> rdb w = None \<or> \<not> GetBoolParam (map_of p ''publish'')
          \<longrightarrow> snd (UploadApp e pm c w) = w)"

proof (intro impI)
  assume a: "ValidateParams c (mongo w) = Inr p \<and> Files c = Some []"
  then have u: "UploadApp e pm c w
      = (\<lparr>code = 500,
          body = [(''error'', JString ''no results found. Please check your files.'')]\<rparr>,
         invalidate_step pm p w)"
    by (simp add: UploadApp_def)
  have "invalidate_step pm p w = w"
    if "\<not> pm \<or> rdb w = None \<or> \<not> GetBoolParam (map_of p ''publish'')"
    using that invalidate_step_inactive[of pm w p] invalidate_step_unpublished[of p pm w]
    by blast
  with u show "fst (UploadApp e pm c w)
       = \<lparr>code = 500,
          body = [(''error'', JString ''no results found. Please check your files.'')]\<rparr>
     \<and> mongo (snd (UploadApp e pm c w)) = mongo w
     \<and> bucket (snd (UploadApp e pm c w)) = bucket w
     \<and> (\<not> pm \<or> rdb w = None \<or> \<not> GetBoolParam (map_of p ''publish'')
          \<longrightarrow> snd (UploadApp e pm c w) = w)"
    by (simp add: invalidate_step_keeps)

qed

text \<open>
  The amended C10 for an unpublished upload without files in scenario S1.
\<close>

theorem upload_without_files_witness:
  "UploadApp ''http://s3'' True (upload_request (nightly_payload ''0.0.4.137'' False) []) S1_world
     = (\<lparr>code = 500,
         body = [(''error'', JString ''no results found. Please check your files.'')]\<rparr>,
        S1_world)"

proof -
  let ?c = "upload_request (nightly_payload ''0.0.4.137'' False) []"
  let ?p = "nightly_payload ''0.0.4.137'' False"
  have 1: "ValidateParams ?c (mongo S1_world) = Inr ?p \<and> Files ?c = Some []"
    by code_simp
  have 2: "\<not> GetBoolParam (map_of ?p ''publish'')"
    by code_simp
  from upload_without_files[of ?c S1_world ?p "''http://s3''" True] 1 2
  have "fst (UploadApp ''http://s3'' True ?c S1_world)
       = \<lparr>code = 500,
          body = [(''error'', JString ''no results found. Please check your files.'')]\<rparr>
     \<and> snd (UploadApp ''http://s3'' True ?c S1_world) = S1_world"
    by blast
  then show ?thesis by (simp add: prod_eq_iff)

qed

text \<open>
  C10 as stated fails: with the cache active, a validated request with \<^verbatim>\<open>publish\<close> true and
  no file is answered 500, and the two cached answers for (testapp, nightly) are deleted:
  the cache step of lines 91-102 runs before the test for an empty result list.
\<close>

theorem upload_without_files_counterexample:
  "fst (UploadApp ''http://s3'' True
          (upload_request (nightly_payload ''0.0.4.137'' True) []) S1_world)
     = \<lparr>code = 500,
        body = [(''error'', JString ''no results found. Please check your files.'')]\<rparr>
   \<and> map fst (entries S1_redis)
       = [cached_key ''0.0.1.137'' ''nightly'', cached_key ''0.0.4.137'' ''stable'',
          cached_key ''0.0.2.137'' ''nightly'']
   \<and> rdb S1_world = Some S1_redis
   \<and> rdb (snd (UploadApp ''http://s3'' True
          (upload_request (nightly_payload ''0.0.4.137'' True) []) S1_world))
     = Some (S1_redis\<lparr>entries := [(cached_key ''0.0.4.137'' ''stable'', ''b'')]\<rparr>)"
  by code_simp

end
